theory Spec2Isabelle
  imports Main "HOL-Library.AList"
begin

section \<open>Values of the JavaScript runtime\<close>

text \<open>
  Exceptions are values. \<open>Error\<close> is a plain \<^verbatim>\<open>Error\<close> (the broker's and the
  transport's failures included), \<open>TypeError\<close> a property read on \<^verbatim>\<open>null\<close> or
  \<^verbatim>\<open>undefined\<close>, \<open>SyntaxError\<close> what \<^verbatim>\<open>JSON.parse\<close> throws.
\<close>

datatype error = Error string | TypeError string | SyntaxError string

text \<open>What \<^verbatim>\<open>JSON.parse\<close> returns. An object is the list of its own properties.\<close>

datatype json =
    JNull
  | JBool bool
  | JNum int
  | JStr string
  | JArr "json list"
  | JObj "(string \<times> json) list"

text \<open>
  The built-ins the programs call but do not define: \<^verbatim>\<open>JSON.parse\<close> (\<open>None\<close> when it
  throws), \<^verbatim>\<open>JSON.stringify\<close> and \<^verbatim>\<open>new URL(path, base)\<close> (\<open>None\<close> when the
  base is not a URL).
\<close>

record url =
  url_hostname :: string
  url_port :: string
  url_pathname :: string

record runtime =
  JSON_parse :: "string \<Rightarrow> json option"
  JSON_stringify :: "json \<Rightarrow> string"
  new_URL :: "string \<Rightarrow> string \<Rightarrow> url option"

section \<open>Contexts and baggage\<close>

text \<open>
  A baggage is a list of entries with unique keys, in insertion order; a context holds
  an optional baggage and an optional span context (trace identifier, span identifier).
\<close>

type_synonym baggage = "(string \<times> string) list"

record span_context =
  traceId :: string
  spanId :: string

record "context" =
  ctx_baggage :: "baggage option"
  ctx_span :: "span_context option"

section \<open>Effects\<close>

record consume_message =
  content :: string
  deliveryTag :: nat

record request_options =
  hostname :: string
  port :: string
  path :: string
  http_method :: string
  headers :: "(string \<times> string) list option"

text \<open>
  Console output keeps the data of each line, not its layout.
\<close>

datatype log_line =
    LConnecting string int int
  | LConnected
  | LRetrying int
  | LQueueReady string
  | LWaiting
  | LReceived string
  | LExtractedBaggage
  | LNoBaggage
  | LBaggageEntry string string
  | LUserId string
  | LRequestSource string
  | LSessionId string
  | LTraceId string
  | LSpanId string
  | LCallingApi string
  | LApiResponse string
  | LApiCallFailed error
  | LProcessed
  | LErrorProcessing error
  | LPublishing int
  | LContent string
  | LBaggageHeading
  | LPublished int
  | LErrorPublishing int error
  | LAllPublished
  | LConnectionClosed
  | LErrorInPublisher error
  | LHttpReceived
  | LMessageId "json option"
  | LData "json option"
  | LRequestProcessed
  | LErrorRequest error

text \<open>
  Every call that leaves the process is an event, in the order the program makes them.
\<close>

datatype event =
    ConsoleLog log_line
  | ConsoleError log_line
  | Sleep int
  | AmqpConnect string
  | CreateChannel
  | AssertQueue string bool
  | SendToQueue string string "context"
  | ChannelClose
  | ConnectionClose
  | HttpRequest request_options string
  | Ack consume_message
  | Nack consume_message bool bool
  | ProcessExit int

section \<open>Connecting to the broker\<close>

text \<open>
  \<^verbatim>\<open>connectWithRetry\<close> is the same function in the consumer and in the publisher.
  The broker is a function from the ordinal of the call to \<^verbatim>\<open>amqp.connect\<close> (1 for
  the first) to its outcome; a connection is the URL it was opened on.
\<close>

datatype connection = Connection string

type_synonym broker = "int \<Rightarrow> error + connection"

function connect_loop ::
  "broker \<Rightarrow> string \<Rightarrow> int \<Rightarrow> int \<Rightarrow> int \<Rightarrow> (error + connection) \<times> event list" where
  "connect_loop amqp_connect RABBITMQ_URL maxRetries delayMs attempt =
     (if attempt \<le> maxRetries then
        (case amqp_connect attempt of
           Inr conn \<Rightarrow>
             (Inr conn,
              [ConsoleLog (LConnecting RABBITMQ_URL attempt maxRetries),
               AmqpConnect RABBITMQ_URL,
               ConsoleLog LConnected])
         | Inl err \<Rightarrow>
             if attempt = maxRetries then
               (Inl err,
                [ConsoleLog (LConnecting RABBITMQ_URL attempt maxRetries),
                 AmqpConnect RABBITMQ_URL])
             else
               (let (r, evs) =
                      connect_loop amqp_connect RABBITMQ_URL maxRetries delayMs (attempt + 1)
                in (r,
                    [ConsoleLog (LConnecting RABBITMQ_URL attempt maxRetries),
                     AmqpConnect RABBITMQ_URL,
                     ConsoleLog (LRetrying delayMs),
                     Sleep delayMs] @ evs)))
      else (Inl (Error ''Failed to connect to RabbitMQ''), []))"
  by pat_completeness auto
termination
  by (relation "measure (\<lambda>(b, u, maxRetries, d, attempt). nat (maxRetries + 1 - attempt))") auto

definition connectWithRetry ::
  "broker \<Rightarrow> string \<Rightarrow> int \<Rightarrow> int \<Rightarrow> (error + connection) \<times> event list" where
  "connectWithRetry amqp_connect RABBITMQ_URL maxRetries delayMs =
     connect_loop amqp_connect RABBITMQ_URL maxRetries delayMs 1"

text \<open>Observations on a run: the calls to the broker, the attempt numbers logged, the waits.\<close>

fun connect_attempts :: "event list \<Rightarrow> nat" where
  "connect_attempts [] = 0"
| "connect_attempts (AmqpConnect u # evs) = Suc (connect_attempts evs)"
| "connect_attempts (e # evs) = connect_attempts evs"

fun logged_attempts :: "event list \<Rightarrow> int list" where
  "logged_attempts [] = []"
| "logged_attempts (ConsoleLog (LConnecting u a m) # evs) = a # logged_attempts evs"
| "logged_attempts (e # evs) = logged_attempts evs"

fun sleeps :: "event list \<Rightarrow> int list" where
  "sleeps [] = []"
| "sleeps (Sleep d # evs) = d # sleeps evs"
| "sleeps (e # evs) = sleeps evs"

text \<open>A broker that refuses its first \<open>k\<close> calls and accepts every later one.\<close>

definition demo_broker :: "nat \<Rightarrow> broker" where
  "demo_broker k a = (if a \<le> int k then Inl (Error ''ECONNREFUSED'') else Inr (Connection ''amqp://localhost:5672''))"


section \<open>Numbers as text\<close>

text \<open>
  \<^verbatim>\<open>toString\<close> and template literals on an integer: its decimal digits, with a minus
  sign when negative.
\<close>

definition digit_char :: "nat \<Rightarrow> char" where
  "digit_char d = ''0123456789'' ! (d mod 10)"

fun string_of_nat :: "nat \<Rightarrow> string" where
  "string_of_nat n =
     (if n < 10 then [digit_char n] else string_of_nat (n div 10) @ [digit_char (n mod 10)])"

declare string_of_nat.simps [simp del]

definition toString :: "int \<Rightarrow> string" where
  "toString i = (if i < 0 then ''-'' @ string_of_nat (nat (- i)) else string_of_nat (nat i))"

section \<open>The propagation interface\<close>

text \<open>
  Modelled from the spec: the baggage and context operations of the propagation
  library (\<^verbatim>\<open>createBaggage\<close>, \<^verbatim>\<open>setEntry\<close>, \<^verbatim>\<open>getEntry\<close>, \<^verbatim>\<open>getAllEntries\<close>,
  \<^verbatim>\<open>getBaggage\<close>, \<^verbatim>\<open>setBaggage\<close>, \<^verbatim>\<open>getSpan\<close>), which the programs import and
  whose code is not part of the sources. A baggage maps each key to one value; setting
  an entry gives a new baggage and a new context, and changes nothing in place.
\<close>

definition createBaggage :: baggage where
  "createBaggage = []"

definition setEntry :: "baggage \<Rightarrow> string \<Rightarrow> string \<Rightarrow> baggage" where
  "setEntry b k v = AList.update k v b"

definition getEntry :: "baggage \<Rightarrow> string \<Rightarrow> string option" where
  "getEntry b k = map_of b k"

definition getAllEntries :: "baggage \<Rightarrow> (string \<times> string) list" where
  "getAllEntries b = b"

definition getBaggage :: "context \<Rightarrow> baggage option" where
  "getBaggage ctx = ctx_baggage ctx"

definition setBaggage :: "context \<Rightarrow> baggage \<Rightarrow> context" where
  "setBaggage ctx b = ctx\<lparr>ctx_baggage := Some b\<rparr>"

definition getSpan :: "context \<Rightarrow> span_context option" where
  "getSpan ctx = ctx_span ctx"

text \<open>
  Modelled from the spec: the carrier codec behind \<^verbatim>\<open>propagation.inject\<close> and the
  extraction done on receipt, also code of the propagation library. A carrier is a flat
  list of string pairs. Encoding gives one carrier key per baggage entry, the entry's
  key behind a fixed prefix, and puts the two fields of the trace reference under two
  fixed keys. Decoding reads the prefixed keys and the two fixed keys back and ignores
  every other key; a carrier with no baggage key gives a context without baggage.
\<close>

definition baggage_prefix :: string where
  "baggage_prefix = ''baggage-''"

definition has_prefix :: "string \<Rightarrow> string \<Rightarrow> bool" where
  "has_prefix p s = (take (length p) s = p)"

definition entries :: "context \<Rightarrow> (string \<times> string) list" where
  "entries ctx = (case ctx_baggage ctx of None \<Rightarrow> [] | Some b \<Rightarrow> b)"

definition encode :: "context \<Rightarrow> (string \<times> string) list" where
  "encode ctx =
     map (\<lambda>(k, v). (baggage_prefix @ k, v)) (entries ctx) @
     (case ctx_span ctx of
        None \<Rightarrow> []
      | Some sc \<Rightarrow> [(''trace-id'', traceId sc), (''span-id'', spanId sc)])"

definition decode_baggage :: "(string \<times> string) list \<Rightarrow> (string \<times> string) list" where
  "decode_baggage carrier =
     map (\<lambda>(k, v). (drop (length baggage_prefix) k, v))
       (filter (\<lambda>(k, v). has_prefix baggage_prefix k) carrier)"

definition decode :: "(string \<times> string) list \<Rightarrow> context" where
  "decode carrier =
     \<lparr>ctx_baggage =
        (if decode_baggage carrier = [] then None else Some (decode_baggage carrier)),
      ctx_span =
        (case (map_of carrier ''trace-id'', map_of carrier ''span-id'') of
           (Some t, Some s) \<Rightarrow> Some \<lparr>traceId = t, spanId = s\<rparr>
         | _ \<Rightarrow> None)\<rparr>"

section \<open>The publisher\<close>

text \<open>
  What the publisher's surroundings answer: the broker, the channel operations (\<open>None\<close>
  when the call succeeds, the error it throws otherwise; \<^verbatim>\<open>sendToQueue\<close> by the number
  of the message sent), the two clock readings taken while message \<open>i\<close> is built, and the
  context that is active when the program starts.
\<close>

record publisher_env =
  env_broker :: broker
  env_createChannel :: "error option"
  env_assertQueue :: "error option"
  env_sendToQueue :: "int \<Rightarrow> error option"
  env_channel_close :: "error option"
  env_connection_close :: "error option"
  env_Date_now :: "int \<Rightarrow> int"
  env_toISOString :: "int \<Rightarrow> string"
  env_active :: "context"
  env_RABBITMQ_URL :: string

definition QUEUE_NAME :: string where
  "QUEUE_NAME = ''otel-baggage-demo''"

definition baggageEntries :: "publisher_env \<Rightarrow> int \<Rightarrow> (string \<times> string) list" where
  "baggageEntries env messageNumber =
     [(''user.id'', ''user-'' @ toString (1000 + messageNumber)),
      (''request.source'', ''api-gateway''),
      (''session.id'', ''session-'' @ toString (env_Date_now env messageNumber)),
      (''message.number'', toString messageNumber)]"

definition ctxWithBaggage :: "publisher_env \<Rightarrow> int \<Rightarrow> context" where
  "ctxWithBaggage env messageNumber =
     (let currentBaggage =
            (case getBaggage (env_active env) of Some b \<Rightarrow> b | None \<Rightarrow> createBaggage);
          currentBaggage' =
            fold (\<lambda>(key, v) b. setEntry b key v) (baggageEntries env messageNumber) currentBaggage
      in setBaggage (env_active env) currentBaggage')"

definition message :: "publisher_env \<Rightarrow> int \<Rightarrow> json" where
  "message env messageNumber =
     JObj [(''id'', JNum messageNumber),
           (''timestamp'', JStr (env_toISOString env messageNumber)),
           (''data'', JStr (''Message '' @ toString messageNumber))]"

text \<open>
  \<open>SendToQueue q payload ctx\<close> is the call \<^verbatim>\<open>channel.sendToQueue(q, payload)\<close> made
  while \<open>ctx\<close> is the active context; the transport attaches the carrier of the active
  context to the message. The call is in the trace also when it throws.
\<close>

definition publishMessageWithBaggage ::
  "runtime \<Rightarrow> publisher_env \<Rightarrow> int \<Rightarrow> (error + unit) \<times> event list" where
  "publishMessageWithBaggage rt env messageNumber =
     (let announce =
            [ConsoleLog (LPublishing messageNumber),
             ConsoleLog (LContent (JSON_stringify rt (message env messageNumber))),
             ConsoleLog LBaggageHeading] @
            map (\<lambda>(key, v). ConsoleLog (LBaggageEntry key v)) (baggageEntries env messageNumber) @
            [SendToQueue QUEUE_NAME (JSON_stringify rt (message env messageNumber))
               (ctxWithBaggage env messageNumber)]
      in case env_sendToQueue env messageNumber of
           None \<Rightarrow> (Inr (), announce @ [ConsoleLog (LPublished messageNumber)])
         | Some err \<Rightarrow>
             (Inl err, announce @ [ConsoleError (LErrorPublishing messageNumber err)]))"

function publish_loop ::
  "runtime \<Rightarrow> publisher_env \<Rightarrow> int \<Rightarrow> (error + unit) \<times> event list" where
  "publish_loop rt env i =
     (if i \<le> 5 then
        (case publishMessageWithBaggage rt env i of
           (Inl err, evs) \<Rightarrow> (Inl err, evs)
         | (Inr u, evs) \<Rightarrow>
             (let (r, evs') = publish_loop rt env (i + 1)
              in (r, evs @ [Sleep 2000] @ evs')))
      else (Inr (), []))"
  by pat_completeness auto
termination
  by (relation "measure (\<lambda>(rt, env, i). nat (6 - i))") auto

text \<open>
  The \<^verbatim>\<open>catch\<close> block of \<^verbatim>\<open>publishMessages\<close>: it reports the error, closes the channel
  and the connection if they were opened (ignoring what the two calls throw), and ends
  the process with status 1.
\<close>

definition publisher_catch :: "error \<Rightarrow> bool \<Rightarrow> bool \<Rightarrow> event list" where
  "publisher_catch err channel connection =
     [ConsoleError (LErrorInPublisher err)] @
     (if channel then [ChannelClose] else []) @
     (if connection then [ConnectionClose] else []) @
     [ProcessExit 1]"

text \<open>
  \<^verbatim>\<open>publishMessages\<close> returns the status the process ends with and the trace. On the
  path that reaches the end of the \<^verbatim>\<open>try\<close> block the function returns, nothing is
  left to run, and the process ends with status 0.
\<close>

definition publishMessages :: "runtime \<Rightarrow> publisher_env \<Rightarrow> int \<times> event list" where
  "publishMessages rt env =
     (case connectWithRetry (env_broker env) (env_RABBITMQ_URL env) 10 2000 of
        (Inl err, evs0) \<Rightarrow> (1, evs0 @ publisher_catch err False False)
      | (Inr connection, evs0) \<Rightarrow>
          (case env_createChannel env of
             Some err \<Rightarrow> (1, evs0 @ [CreateChannel] @ publisher_catch err False True)
           | None \<Rightarrow>
               (case env_assertQueue env of
                  Some err \<Rightarrow>
                    (1, evs0 @ [CreateChannel, AssertQueue QUEUE_NAME False] @
                        publisher_catch err True True)
                | None \<Rightarrow>
                    (let evs1 = evs0 @ [CreateChannel, AssertQueue QUEUE_NAME False,
                                        ConsoleLog (LQueueReady QUEUE_NAME)]
                     in case publish_loop rt env 1 of
                          (Inl err, evs2) \<Rightarrow> (1, evs1 @ evs2 @ publisher_catch err True True)
                        | (Inr u, evs2) \<Rightarrow>
                            (case env_channel_close env of
                               Some err \<Rightarrow>
                                 (1, evs1 @ evs2 @ [ConsoleLog LAllPublished, ChannelClose] @
                                     publisher_catch err True True)
                             | None \<Rightarrow>
                                 (case env_connection_close env of
                                    Some err \<Rightarrow>
                                      (1, evs1 @ evs2 @
                                          [ConsoleLog LAllPublished, ChannelClose,
                                           ConnectionClose] @
                                          publisher_catch err True True)
                                  | None \<Rightarrow>
                                      (0, evs1 @ evs2 @
                                          [ConsoleLog LAllPublished, ChannelClose,
                                           ConnectionClose,
                                           ConsoleLog LConnectionClosed])))))))"

text \<open>The messages handed to the queue in a trace, in order: payload and active context.\<close>

fun sent :: "event list \<Rightarrow> (string \<times> context) list" where
  "sent [] = []"
| "sent (SendToQueue q payload ctx # evs) = (payload, ctx) # sent evs"
| "sent (e # evs) = sent evs"


section \<open>The consumer\<close>

text \<open>
  Reading a property of a parsed value: \<^verbatim>\<open>null\<close> throws, an object gives the property
  or \<^verbatim>\<open>undefined\<close> (\<open>None\<close>), and a number, string, boolean or array has none of the
  properties the programs read. An object literal whose property is \<^verbatim>\<open>undefined\<close> is
  serialised without that property.
\<close>

definition get_prop :: "json \<Rightarrow> string \<Rightarrow> error + json option" where
  "get_prop v name =
     (case v of
        JNull \<Rightarrow> Inl (TypeError ''Cannot read properties of null'')
      | JObj kvs \<Rightarrow> Inr (map_of kvs name)
      | _ \<Rightarrow> Inr None)"

fun defined :: "(string \<times> json option) list \<Rightarrow> (string \<times> json) list" where
  "defined [] = []"
| "defined ((k, None) # kvs) = defined kvs"
| "defined ((k, Some v) # kvs) = (k, v) # defined kvs"

text \<open>
  The HTTP exchange as the adapter sees it: the request emits \<^verbatim>\<open>error\<close>, or the
  response emits \<^verbatim>\<open>end\<close> after a status and a body, or neither event ever comes (the
  service does not answer, or the response is cut before its end; the adapter sets no
  timeout and listens to nothing else).
\<close>

datatype exchange = RequestError error | ResponseEnd nat string | NoAnswer

text \<open>The state a promise ends in; \<open>Pending\<close> when it is never settled.\<close>

datatype settlement = Resolved | Rejected error | Pending

text \<open>
  The channel as \<^verbatim>\<open>processMessage\<close> uses it: what \<^verbatim>\<open>ack\<close> throws for a delivery
  (\<open>None\<close> when it returns). \<^verbatim>\<open>nack\<close> is the last call of the \<^verbatim>\<open>catch\<close> block, so
  whether it returns changes no call that is made.
\<close>

record channel =
  ack_throws :: "consume_message \<Rightarrow> error option"

type_synonym transport = "request_options \<Rightarrow> string \<Rightarrow> exchange"

definition postData :: "runtime \<Rightarrow> json \<Rightarrow> error + string" where
  "postData rt messageContent =
     (case get_prop messageContent ''id'' of
        Inl err \<Rightarrow> Inl err
      | Inr i \<Rightarrow>
          (case get_prop messageContent ''timestamp'' of
             Inl err \<Rightarrow> Inl err
           | Inr t \<Rightarrow>
               (case get_prop messageContent ''data'' of
                  Inl err \<Rightarrow> Inl err
                | Inr d \<Rightarrow>
                    Inr (JSON_stringify rt
                           (JObj (defined [(''messageId'', i), (''timestamp'', t),
                                           (''data'', d)]))))))"

text \<open>
  The headers \<^verbatim>\<open>callApiService\<close> prepares: content type and length, then the carrier
  of the active context with the baggage set, merged in by \<^verbatim>\<open>Object.assign\<close>.
\<close>

definition prepared_headers ::
  "context \<Rightarrow> baggage option \<Rightarrow> string \<Rightarrow> (string \<times> string) list" where
  "prepared_headers active currentBaggage body =
     (let headers0 = [(''Content-Type'', ''application/json''),
                      (''Content-Length'', toString (int (length body)))];
          contextWithBaggage =
            (case currentBaggage of Some b \<Rightarrow> setBaggage active b | None \<Rightarrow> active);
          carrier = encode contextWithBaggage
      in fold (\<lambda>(k, v) h. AList.update k v h) carrier headers0)"

text \<open>
  The options handed to \<^verbatim>\<open>http.request\<close>. The \<^verbatim>\<open>headers\<close> property is commented
  out in the object literal, so the options have none.
\<close>

definition request_options_of :: "url \<Rightarrow> request_options" where
  "request_options_of u =
     \<lparr>hostname = url_hostname u,
      port = (if url_port u = [] then ''3000'' else url_port u),
      path = url_pathname u,
      http_method = ''POST'',
      headers = None\<rparr>"

definition api_request ::
  "runtime \<Rightarrow> string \<Rightarrow> json \<Rightarrow> error + request_options \<times> string" where
  "api_request rt API_SERVICE_URL messageContent =
     (case new_URL rt ''/process'' API_SERVICE_URL of
        None \<Rightarrow> Inl (TypeError ''Invalid URL'')
      | Some u \<Rightarrow>
          (case postData rt messageContent of
             Inl err \<Rightarrow> Inl err
           | Inr body \<Rightarrow> Inr (request_options_of u, body)))"

definition callApiService ::
  "runtime \<Rightarrow> string \<Rightarrow> transport \<Rightarrow> context \<Rightarrow> json \<Rightarrow> baggage option \<Rightarrow>
   settlement \<times> event list" where
  "callApiService rt API_SERVICE_URL http active messageContent currentBaggage =
     (case api_request rt API_SERVICE_URL messageContent of
        Inl err \<Rightarrow> (Rejected err, [])
      | Inr (options, body) \<Rightarrow>
          (let hdrs = prepared_headers active currentBaggage body;
               evs = [ConsoleLog (LCallingApi API_SERVICE_URL), HttpRequest options body]
           in case http options body of
                ResponseEnd status responseData \<Rightarrow>
                  (case JSON_parse rt responseData of
                     Some response \<Rightarrow>
                       (Resolved,
                        evs @ [ConsoleLog (LApiResponse (JSON_stringify rt response))])
                   | None \<Rightarrow> (Rejected (Error ''Failed to parse API response''), evs))
              | RequestError err \<Rightarrow>
                  (Rejected err, evs @ [ConsoleError (LApiCallFailed err)])
              | NoAnswer \<Rightarrow> (Pending, evs)))"

text \<open>What \<^verbatim>\<open>processMessage\<close> prints between parsing the payload and the call.\<close>

definition receipt_log :: "runtime \<Rightarrow> context \<Rightarrow> json \<Rightarrow> event list" where
  "receipt_log rt active messageContent =
     (let currentBaggage = getBaggage active;
          allBaggage = (case currentBaggage of Some b \<Rightarrow> getAllEntries b | None \<Rightarrow> []);
          entry = (\<lambda>k. case currentBaggage of Some b \<Rightarrow> getEntry b k | None \<Rightarrow> None)
      in [ConsoleLog (LReceived (JSON_stringify rt messageContent)),
          ConsoleLog LExtractedBaggage] @
         (if allBaggage = [] then [ConsoleLog LNoBaggage]
          else map (\<lambda>(k, v). ConsoleLog (LBaggageEntry k v)) allBaggage) @
         (case entry ''user.id'' of Some v \<Rightarrow> [ConsoleLog (LUserId v)] | None \<Rightarrow> []) @
         (case entry ''request.source'' of
            Some v \<Rightarrow> [ConsoleLog (LRequestSource v)] | None \<Rightarrow> []) @
         (case entry ''session.id'' of Some v \<Rightarrow> [ConsoleLog (LSessionId v)] | None \<Rightarrow> []) @
         (case getSpan active of
            Some sc \<Rightarrow> [ConsoleLog (LTraceId (traceId sc)), ConsoleLog (LSpanId (spanId sc))]
          | None \<Rightarrow> []))"

text \<open>
  \<^verbatim>\<open>processMessage\<close> for one delivery. \<open>active\<close> is the context that is active when the
  delivery arrives (the transport has extracted it from the message); the result is the
  trace. The call of \<^verbatim>\<open>ack\<close> is inside the \<^verbatim>\<open>try\<close> block: when it throws, the
  \<^verbatim>\<open>catch\<close> block runs after it. While the promise of \<^verbatim>\<open>callApiService\<close> is pending,
  nothing after the \<^verbatim>\<open>await\<close> runs.
\<close>

definition processMessage ::
  "runtime \<Rightarrow> string \<Rightarrow> transport \<Rightarrow> channel \<Rightarrow> context \<Rightarrow> consume_message \<Rightarrow>
   event list" where
  "processMessage rt API_SERVICE_URL http chan active msg =
     (case JSON_parse rt (content msg) of
        None \<Rightarrow>
          [ConsoleError (LErrorProcessing (SyntaxError ''Unexpected token in JSON'')),
           Nack msg False True]
      | Some messageContent \<Rightarrow>
          (case callApiService rt API_SERVICE_URL http active messageContent
                  (getBaggage active) of
             (Resolved, evs) \<Rightarrow>
               receipt_log rt active messageContent @ evs @ [ConsoleLog LProcessed, Ack msg] @
               (case ack_throws chan msg of
                  None \<Rightarrow> []
                | Some err \<Rightarrow> [ConsoleError (LErrorProcessing err), Nack msg False True])
           | (Rejected err, evs) \<Rightarrow>
               receipt_log rt active messageContent @ evs @
               [ConsoleError (LErrorProcessing err), Nack msg False True]
           | (Pending, evs) \<Rightarrow> receipt_log rt active messageContent @ evs))"

text \<open>
  The callback given to \<^verbatim>\<open>channel.consume\<close>: the queue client calls it with a delivery,
  or with \<^verbatim>\<open>null\<close> when the consumer is cancelled. It returns (\<open>Inr\<close>) or throws
  (\<open>Inl\<close>).
\<close>

definition on_delivery ::
  "runtime \<Rightarrow> string \<Rightarrow> transport \<Rightarrow> channel \<Rightarrow> context \<Rightarrow> consume_message option \<Rightarrow>
   (error + unit) \<times> event list" where
  "on_delivery rt API_SERVICE_URL http chan active msg =
     (case msg of
        None \<Rightarrow> (Inr (), [])
      | Some m \<Rightarrow> (Inr (), processMessage rt API_SERVICE_URL http chan active m))"

text \<open>Observations on a trace: the resolutions of delivery handles and the HTTP calls.\<close>

definition is_resolution :: "event \<Rightarrow> bool" where
  "is_resolution e = (case e of Ack m \<Rightarrow> True | Nack m a r \<Rightarrow> True | _ \<Rightarrow> False)"

definition is_http :: "event \<Rightarrow> bool" where
  "is_http e = (case e of HttpRequest opts body \<Rightarrow> True | _ \<Rightarrow> False)"

definition is_exit :: "event \<Rightarrow> bool" where
  "is_exit e = (case e of ProcessExit c \<Rightarrow> True | _ \<Rightarrow> False)"

definition resolutions :: "event list \<Rightarrow> event list" where
  "resolutions evs = filter is_resolution evs"

definition http_calls :: "event list \<Rightarrow> event list" where
  "http_calls evs = filter is_http evs"

definition rejected :: "settlement \<Rightarrow> bool" where
  "rejected s = (case s of Rejected err \<Rightarrow> True | _ \<Rightarrow> False)"

text \<open>The downstream call of a delivery is made and never answered.\<close>

definition unanswered :: "runtime \<Rightarrow> string \<Rightarrow> transport \<Rightarrow> consume_message \<Rightarrow> bool" where
  "unanswered rt API_SERVICE_URL http msg =
     (case JSON_parse rt (content msg) of
        None \<Rightarrow> False
      | Some messageContent \<Rightarrow>
          (case api_request rt API_SERVICE_URL messageContent of
             Inl err \<Rightarrow> False
           | Inr (options, body) \<Rightarrow> http options body = NoAnswer))"

section \<open>The receiving service\<close>

text \<open>
  The handler of \<^verbatim>\<open>POST /process\<close>, from the parsed request body (\<open>None\<close> when the
  framework left it \<^verbatim>\<open>undefined\<close>), the headers of the request and the clock reading:
  status and response body, and the trace. The baggage it reports is the baggage of the
  context extracted from the request headers.
\<close>

definition sent_headers :: "request_options \<Rightarrow> (string \<times> string) list" where
  "sent_headers opts = (case headers opts of None \<Rightarrow> [] | Some h \<Rightarrow> h)"

definition process_route ::
  "string \<Rightarrow> json option \<Rightarrow> (string \<times> string) list \<Rightarrow> (nat \<times> json) \<times> event list" where
  "process_route processedAt req_body req_headers =
     (case (case req_body of
              None \<Rightarrow> Inl (TypeError ''Cannot read properties of undefined'')
            | Some requestData \<Rightarrow>
                (case get_prop requestData ''messageId'' of
                   Inl err \<Rightarrow> Inl err
                 | Inr i \<Rightarrow>
                     (case get_prop requestData ''data'' of
                        Inl err \<Rightarrow> Inl err
                      | Inr d \<Rightarrow> Inr (i, d)))) of
        Inl err \<Rightarrow>
          ((500, JObj [(''error'', JStr ''Internal server error'')]),
           [ConsoleLog LHttpReceived, ConsoleError (LErrorRequest err)])
      | Inr (i, d) \<Rightarrow>
          (let currentBaggage = getBaggage (decode req_headers);
               allBaggage =
                 (case currentBaggage of Some b \<Rightarrow> getAllEntries b | None \<Rightarrow> []);
               baggageReceived =
                 fold (\<lambda>(k, v) obj. AList.update k (JStr v) obj) allBaggage []
           in ((200,
                JObj (defined [(''success'', Some (JBool True)),
                               (''messageId'', i),
                               (''processedAt'', Some (JStr processedAt)),
                               (''baggageReceived'', Some (JObj baggageReceived))])),
               [ConsoleLog LHttpReceived, ConsoleLog (LMessageId i), ConsoleLog (LData d),
                ConsoleLog LExtractedBaggage] @
               (if allBaggage = [] then [ConsoleLog LNoBaggage]
                else map (\<lambda>(k, v). ConsoleLog (LBaggageEntry k v)) allBaggage) @
               [ConsoleLog LRequestProcessed])))"


definition baggageReceived :: "json \<Rightarrow> json option" where
  "baggageReceived response =
     (case response of JObj kvs \<Rightarrow> map_of kvs ''baggageReceived'' | _ \<Rightarrow> None)"

section \<open>A concrete runtime and concrete surroundings\<close>

text \<open>
  For evaluating the programs at given inputs: \<^verbatim>\<open>JSON.stringify\<close> on values whose
  strings need no escaping, \<^verbatim>\<open>JSON.parse\<close> as its inverse on the handful of values
  used below (every other text is taken as not JSON), and \<^verbatim>\<open>new URL\<close> on the default address of the
  receiving service.
\<close>

definition quote :: "string \<Rightarrow> string" where
  "quote s = CHR 0x22 # s @ [CHR 0x22]"

fun commas :: "string list \<Rightarrow> string" where
  "commas [] = []"
| "commas [x] = x"
| "commas (x # y # ys) = x @ '','' @ commas (y # ys)"

primrec stringify :: "json \<Rightarrow> string" where
  "stringify JNull = ''null''"
| "stringify (JBool b) = (if b then ''true'' else ''false'')"
| "stringify (JNum i) = toString i"
| "stringify (JStr s) = quote s"
| "stringify (JArr xs) = ''['' @ commas (map stringify xs) @ '']''"
| "stringify (JObj kvs) =
     ''{'' @ commas (map (\<lambda>(k, t). quote k @ '':'' @ t) (map (map_prod id stringify) kvs)) @ ''}''"

definition message1 :: json where
  "message1 =
     JObj [(''id'', JNum 1), (''timestamp'', JStr ''2024-01-01T00:00:00Z''),
           (''data'', JStr ''Message 1'')]"

definition error500 :: json where
  "error500 = JObj [(''error'', JStr ''Internal server error'')]"

definition request1 :: json where
  "request1 =
     JObj [(''messageId'', JNum 1), (''timestamp'', JStr ''2024-01-01T00:00:00Z''),
           (''data'', JStr ''Message 1'')]"

definition echo :: "(string \<times> json) list \<Rightarrow> json" where
  "echo received =
     JObj [(''success'', JBool True), (''messageId'', JNum 1),
           (''processedAt'', JStr ''2024-01-01T00:00:01Z''),
           (''baggageReceived'', JObj received)]"

definition known :: "json list" where
  "known = [message1, request1, error500, echo [], JObj []]"

definition demo_parse :: "string \<Rightarrow> json option" where
  "demo_parse s = map_of (map (\<lambda>j. (stringify j, j)) known) s"

definition demo_URL :: "string \<Rightarrow> string \<Rightarrow> url option" where
  "demo_URL p base =
     (if base = ''http://localhost:3000''
      then Some \<lparr>url_hostname = ''localhost'', url_port = ''3000'', url_pathname = p\<rparr>
      else None)"

definition demo_rt :: runtime where
  "demo_rt = \<lparr>JSON_parse = demo_parse, JSON_stringify = stringify, new_URL = demo_URL\<rparr>"

text \<open>A transport that answers every request with the same status and body, and one
  that fails every request.\<close>

definition answer :: "nat \<Rightarrow> string \<Rightarrow> transport" where
  "answer status body = (\<lambda>opts b. ResponseEnd status body)"

definition refuse :: "error \<Rightarrow> transport" where
  "refuse err = (\<lambda>opts b. RequestError err)"

definition no_context :: "context" where
  "no_context = \<lparr>ctx_baggage = None, ctx_span = None\<rparr>"

definition scenario_context :: "context" where
  "scenario_context =
     \<lparr>ctx_baggage = Some [(''user.id'', ''user-1001''), (''message.number'', ''1'')],
      ctx_span = None\<rparr>"

definition delivery :: "string \<Rightarrow> consume_message" where
  "delivery payload = \<lparr>content = payload, deliveryTag = 1\<rparr>"

text \<open>
  Surroundings of a publisher run: a broker that accepts the first call, a clock that
  advances by the two seconds the publisher waits between messages, and the given
  answers of \<^verbatim>\<open>sendToQueue\<close> and of closing the channel.
\<close>

definition demo_env :: "(int \<Rightarrow> error option) \<Rightarrow> error option \<Rightarrow> publisher_env" where
  "demo_env send close_channel =
     \<lparr>env_broker = demo_broker 0,
      env_createChannel = None,
      env_assertQueue = None,
      env_sendToQueue = send,
      env_channel_close = close_channel,
      env_connection_close = None,
      env_Date_now = (\<lambda>i. 1704067200000 + 2000 * i),
      env_toISOString = (\<lambda>i. ''2024-01-01T00:00:00.000Z''),
      env_active = no_context,
      env_RABBITMQ_URL = ''amqp://localhost:5672''\<rparr>"

definition all_sent :: "int \<Rightarrow> error option" where
  "all_sent = (\<lambda>i. None)"

definition fails_at :: "int \<Rightarrow> int \<Rightarrow> error option" where
  "fails_at j = (\<lambda>i. if i = j then Some (Error ''Channel closed'') else None)"


text \<open>
  What the receiving service's framework does and the sources do not say: the value it
  leaves in \<^verbatim>\<open>req.body\<close> when the body is not parsed (\<^verbatim>\<open>undefined\<close>, here \<open>None\<close>, or
  an empty object, depending on the framework), and the page it answers with when it
  refuses a request itself.
\<close>

record framework =
  fw_unparsed :: "json option"
  fw_error_page :: string

text \<open>
  The middleware \<^verbatim>\<open>express.json()\<close>: it parses the body of a request whose
  \<^verbatim>\<open>Content-Type\<close> is \<^verbatim>\<open>application/json\<close>, accepts an object or an array and refuses
  anything else with status 400; a request of another or no content type passes with its
  body unparsed. Header names are compared as the consumer writes them.
\<close>

definition express_json ::
  "runtime \<Rightarrow> framework \<Rightarrow> (string \<times> string) list \<Rightarrow> string \<Rightarrow> nat + json option" where
  "express_json rt fw req_headers body =
     (if map_of req_headers ''Content-Type'' = Some ''application/json'' then
        (case JSON_parse rt body of
           Some (JObj kvs) \<Rightarrow> Inr (Some (JObj kvs))
         | Some (JArr xs) \<Rightarrow> Inr (Some (JArr xs))
         | _ \<Rightarrow> Inl 400)
      else Inr (fw_unparsed fw))"

text \<open>
  The receiving service on a request as it arrives, headers and body: the middleware,
  then the handler of \<^verbatim>\<open>POST /process\<close>, then the serialised response.
\<close>

definition api_service ::
  "runtime \<Rightarrow> framework \<Rightarrow> string \<Rightarrow> (string \<times> string) list \<Rightarrow> string \<Rightarrow> exchange" where
  "api_service rt fw processedAt req_headers body =
     (case express_json rt fw req_headers body of
        Inl status \<Rightarrow> ResponseEnd status (fw_error_page fw)
      | Inr req_body \<Rightarrow>
          (case process_route processedAt req_body req_headers of
             ((status, response), evs) \<Rightarrow> ResponseEnd status (JSON_stringify rt response)))"

text \<open>
  The headers of a request on the wire: those of the options given to
  \<^verbatim>\<open>http.request\<close>, with the headers the ambient instrumentation adds to an outgoing
  request (none when it adds nothing). The downstream service as the consumer's
  transport is the receiving service behind that wire.
\<close>

definition on_wire ::
  "(string \<times> string) list \<Rightarrow> request_options \<Rightarrow> (string \<times> string) list" where
  "on_wire injected opts = fold (\<lambda>(k, v) h. AList.update k v h) injected (sent_headers opts)"

definition downstream ::
  "runtime \<Rightarrow> framework \<Rightarrow> string \<Rightarrow> (string \<times> string) list \<Rightarrow> transport" where
  "downstream rt fw processedAt injected =
     (\<lambda>opts body. api_service rt fw processedAt (on_wire injected opts) body)"

definition fw_undefined :: framework where
  "fw_undefined = \<lparr>fw_unparsed = None, fw_error_page = ''Bad Request''\<rparr>"

definition fw_empty_object :: framework where
  "fw_empty_object = \<lparr>fw_unparsed = Some (JObj []), fw_error_page = ''Bad Request''\<rparr>"

text \<open>A channel whose \<^verbatim>\<open>ack\<close> returns, one whose \<^verbatim>\<open>ack\<close> throws, and a service
  that never answers.\<close>

definition ack_returns :: channel where
  "ack_returns = \<lparr>ack_throws = (\<lambda>m. None)\<rparr>"

definition ack_fails :: "error \<Rightarrow> channel" where
  "ack_fails err = \<lparr>ack_throws = (\<lambda>m. Some err)\<rparr>"

definition silent :: transport where
  "silent = (\<lambda>opts b. NoAnswer)"



section \<open>Properties of the connection loop\<close>

lemma connect_loop_accept:
  "\<forall>a. start \<le> a \<and> a < start + int j \<longrightarrow> isl (b a) \<Longrightarrow>
   start + int j \<le> m \<Longrightarrow> b (start + int j) = Inr c \<Longrightarrow>
   fst (connect_loop b u m d start) = Inr c \<and>
   connect_attempts (snd (connect_loop b u m d start)) = j + 1 \<and>
   logged_attempts (snd (connect_loop b u m d start)) = [start..start + int j] \<and>
   sleeps (snd (connect_loop b u m d start)) = replicate j d"
proof (induction j arbitrary: start)
  case 0
  then show ?case by simp
next
  case (Suc j)
  from Suc.prems(1) have r: "isl (b start)" by simp
  then obtain e where e: "b start = Inl e" by (cases "b start") auto
  have lt: "start < m" and le: "start \<le> m" using Suc.prems(2) by auto
  have ih: "fst (connect_loop b u m d (start + 1)) = Inr c \<and>
   connect_attempts (snd (connect_loop b u m d (start + 1))) = j + 1 \<and>
   logged_attempts (snd (connect_loop b u m d (start + 1))) = [start + 1..start + 1 + int j] \<and>
   sleeps (snd (connect_loop b u m d (start + 1))) = replicate j d"
    using Suc.prems by (intro Suc.IH) (auto simp: add.assoc)
  have up: "[start..start + int (Suc j)] = start # [start + 1..start + 1 + int j]"
    by (subst upto_rec1) (auto simp: add.commute add.left_commute)
  show ?case
    using ih e lt up by (simp add: split_beta)
qed

lemma connect_loop_refuse:
  "\<forall>a. start \<le> a \<and> a \<le> m \<longrightarrow> isl (b a) \<Longrightarrow> m = start + int j \<Longrightarrow>
   fst (connect_loop b u m d start) = b m \<and>
   connect_attempts (snd (connect_loop b u m d start)) = j + 1 \<and>
   logged_attempts (snd (connect_loop b u m d start)) = [start..m] \<and>
   sleeps (snd (connect_loop b u m d start)) = replicate j d"
proof (induction j arbitrary: start)
  case 0
  then have "isl (b start)" by simp
  then obtain e where e: "b start = Inl e" by (cases "b start") auto
  with 0 show ?case by simp
next
  case (Suc j)
  from Suc.prems have r: "isl (b start)" by simp
  then obtain e where e: "b start = Inl e" by (cases "b start") auto
  have lt: "start < m" using Suc.prems(2) by auto
  have ih: "fst (connect_loop b u m d (start + 1)) = b m \<and>
   connect_attempts (snd (connect_loop b u m d (start + 1))) = j + 1 \<and>
   logged_attempts (snd (connect_loop b u m d (start + 1))) = [start + 1..m] \<and>
   sleeps (snd (connect_loop b u m d (start + 1))) = replicate j d"
    using Suc.prems by (intro Suc.IH) auto
  have up: "[start..m] = start # [start + 1..m]"
    using lt by (subst upto_rec1) auto
  show ?case
    using ih e lt up by (simp add: split_beta)
qed

lemma connect_loop_at_most:
  "int (connect_attempts (snd (connect_loop b u m d start))) \<le> max 0 (m + 1 - start)"
proof (induction b u m d start rule: connect_loop.induct)
  case (1 b u m d start)
  show ?case
  proof (cases "start \<le> m")
    case False
    then show ?thesis by simp
  next
    case le: True
    show ?thesis
    proof (cases "b start")
      case (Inr c)
      with le show ?thesis by simp
    next
      case (Inl e)
      show ?thesis
      proof (cases "start = m")
        case True
        with Inl show ?thesis by simp
      next
        case False
        with 1 [OF le Inl False] le Inl show ?thesis
          by (simp add: split_beta)
      qed
    qed
  qed
qed


text \<open>
  C5. \<^verbatim>\<open>connectWithRetry\<close> calls the broker at most \<open>maxRetries\<close> times, one call
  after the other, with a wait of \<open>delayMs\<close> after each refused attempt but the last.
  If the broker refuses the first \<open>k < maxRetries\<close> calls and accepts the next, the
  connection of call \<open>k + 1\<close> is returned after \<open>k + 1\<close> calls and \<open>k\<close> waits. If
  it refuses all \<open>maxRetries\<close> calls, the function fails after exactly that many
  calls, with the error of the last call (with the fixed error when \<open>maxRetries\<close> is 0
  and no call is made). Every call is preceded by a log line carrying its attempt number.
\<close>

theorem connectWithRetry_attempts:
  "\<forall>a. 1 \<le> a \<and> a \<le> int k \<longrightarrow> isl (amqp_connect a) \<Longrightarrow>
   int (connect_attempts (snd (connectWithRetry amqp_connect u maxRetries delayMs))) \<le> max 0 maxRetries \<and>
   (int k < maxRetries \<and> amqp_connect (int k + 1) = Inr conn \<longrightarrow>
      fst (connectWithRetry amqp_connect u maxRetries delayMs) = Inr conn \<and>
      connect_attempts (snd (connectWithRetry amqp_connect u maxRetries delayMs)) = k + 1 \<and>
      logged_attempts (snd (connectWithRetry amqp_connect u maxRetries delayMs)) = [1..int k + 1] \<and>
      sleeps (snd (connectWithRetry amqp_connect u maxRetries delayMs)) = replicate k delayMs) \<and>
   (int k = maxRetries \<longrightarrow>
      fst (connectWithRetry amqp_connect u maxRetries delayMs) =
        (if k = 0 then Inl (Error ''Failed to connect to RabbitMQ'') else amqp_connect maxRetries) \<and>
      isl (fst (connectWithRetry amqp_connect u maxRetries delayMs)) \<and>
      connect_attempts (snd (connectWithRetry amqp_connect u maxRetries delayMs)) = k \<and>
      logged_attempts (snd (connectWithRetry amqp_connect u maxRetries delayMs)) = [1..maxRetries] \<and>
      sleeps (snd (connectWithRetry amqp_connect u maxRetries delayMs)) = replicate (k - 1) delayMs)"
proof (intro conjI impI)
  assume refuse: "\<forall>a. 1 \<le> a \<and> a \<le> int k \<longrightarrow> isl (amqp_connect a)"
  show "int (connect_attempts (snd (connectWithRetry amqp_connect u maxRetries delayMs))) \<le> max 0 maxRetries"
    using connect_loop_at_most [of amqp_connect u maxRetries delayMs 1]
    by (simp add: connectWithRetry_def)
  {
    assume acc: "int k < maxRetries \<and> amqp_connect (int k + 1) = Inr conn"
    have *: "fst (connect_loop amqp_connect u maxRetries delayMs 1) = Inr conn \<and>
      connect_attempts (snd (connect_loop amqp_connect u maxRetries delayMs 1)) = k + 1 \<and>
      logged_attempts (snd (connect_loop amqp_connect u maxRetries delayMs 1)) = [1..1 + int k] \<and>
      sleeps (snd (connect_loop amqp_connect u maxRetries delayMs 1)) = replicate k delayMs"
      using refuse acc by (intro connect_loop_accept) (auto simp: add.commute)
    from * show "fst (connectWithRetry amqp_connect u maxRetries delayMs) = Inr conn"
      by (simp add: connectWithRetry_def)
    from * show "connect_attempts (snd (connectWithRetry amqp_connect u maxRetries delayMs)) = k + 1"
      by (simp add: connectWithRetry_def)
    from * show "logged_attempts (snd (connectWithRetry amqp_connect u maxRetries delayMs)) = [1..int k + 1]"
      by (simp add: connectWithRetry_def add.commute)
    from * show "sleeps (snd (connectWithRetry amqp_connect u maxRetries delayMs)) = replicate k delayMs"
      by (simp add: connectWithRetry_def)
  }
  {
    assume all: "int k = maxRetries"
    have **: "fst (connect_loop amqp_connect u maxRetries delayMs 1) =
        (if k = 0 then Inl (Error ''Failed to connect to RabbitMQ'') else amqp_connect maxRetries) \<and>
      connect_attempts (snd (connect_loop amqp_connect u maxRetries delayMs 1)) = k \<and>
      logged_attempts (snd (connect_loop amqp_connect u maxRetries delayMs 1)) = [1..maxRetries] \<and>
      sleeps (snd (connect_loop amqp_connect u maxRetries delayMs 1)) = replicate (k - 1) delayMs"
    proof (cases k)
      case 0
      with all show ?thesis by simp
    next
      case (Suc j)
      have "fst (connect_loop amqp_connect u maxRetries delayMs 1) = amqp_connect maxRetries \<and>
        connect_attempts (snd (connect_loop amqp_connect u maxRetries delayMs 1)) = j + 1 \<and>
        logged_attempts (snd (connect_loop amqp_connect u maxRetries delayMs 1)) = [1..maxRetries] \<and>
        sleeps (snd (connect_loop amqp_connect u maxRetries delayMs 1)) = replicate j delayMs"
        using refuse all Suc by (intro connect_loop_refuse) auto
      with Suc show ?thesis by simp
    qed
    from ** show "fst (connectWithRetry amqp_connect u maxRetries delayMs) =
        (if k = 0 then Inl (Error ''Failed to connect to RabbitMQ'') else amqp_connect maxRetries)"
      by (simp add: connectWithRetry_def)
    from refuse all ** show "isl (fst (connectWithRetry amqp_connect u maxRetries delayMs))"
      by (cases "k = 0") (auto simp: connectWithRetry_def)
    from ** show "connect_attempts (snd (connectWithRetry amqp_connect u maxRetries delayMs)) = k"
      by (simp add: connectWithRetry_def)
    from ** show "logged_attempts (snd (connectWithRetry amqp_connect u maxRetries delayMs)) = [1..maxRetries]"
      by (simp add: connectWithRetry_def)
    from ** show "sleeps (snd (connectWithRetry amqp_connect u maxRetries delayMs)) = replicate (k - 1) delayMs"
      by (simp add: connectWithRetry_def)
  }
qed


theorem connectWithRetry_attempts_witness:
  "fst (connectWithRetry (demo_broker 2) ''amqp://localhost:5672'' 10 2000) = Inr (Connection ''amqp://localhost:5672'') \<and>
   connect_attempts (snd (connectWithRetry (demo_broker 2) ''amqp://localhost:5672'' 10 2000)) = 3 \<and>
   logged_attempts (snd (connectWithRetry (demo_broker 2) ''amqp://localhost:5672'' 10 2000)) = [1, 2, 3] \<and>
   sleeps (snd (connectWithRetry (demo_broker 2) ''amqp://localhost:5672'' 10 2000)) = [2000, 2000] \<and>
   fst (connectWithRetry (demo_broker 3) ''amqp://localhost:5672'' 3 2000) = Inl (Error ''ECONNREFUSED'') \<and>
   connect_attempts (snd (connectWithRetry (demo_broker 3) ''amqp://localhost:5672'' 3 2000)) = 3 \<and>
   logged_attempts (snd (connectWithRetry (demo_broker 3) ''amqp://localhost:5672'' 3 2000)) = [1, 2, 3] \<and>
   sleeps (snd (connectWithRetry (demo_broker 3) ''amqp://localhost:5672'' 3 2000)) = [2000, 2000]"
proof -
  have h2: "\<forall>a. 1 \<le> a \<and> a \<le> int 2 \<longrightarrow> isl (demo_broker 2 a)"
    by (simp add: demo_broker_def)
  have h3: "\<forall>a. 1 \<le> a \<and> a \<le> int 3 \<longrightarrow> isl (demo_broker 3 a)"
    by (simp add: demo_broker_def)
  have acc: "int 2 < 10 \<and> demo_broker 2 (int 2 + 1) = Inr (Connection ''amqp://localhost:5672'')"
    by (simp add: demo_broker_def)
  have last: "demo_broker 3 3 = Inl (Error ''ECONNREFUSED'')"
    by (simp add: demo_broker_def)
  have u12: "[1..3] = [1, 2, 3::int]" by code_simp
  have r2: "replicate 2 (2000::int) = [2000, 2000]" by code_simp
  show ?thesis
    using connectWithRetry_attempts [OF h2, of "''amqp://localhost:5672''" 10 2000 "Connection ''amqp://localhost:5672''"]
      connectWithRetry_attempts [OF h3, of "''amqp://localhost:5672''" 3 2000 "Connection ''amqp://localhost:5672''"]
      acc last u12 r2
    by simp
qed

section \<open>Properties of the consumer and of the codec\<close>

lemma resolutions_append: "resolutions (xs @ ys) = resolutions xs @ resolutions ys"
  by (simp add: resolutions_def)

lemma http_calls_append: "http_calls (xs @ ys) = http_calls xs @ http_calls ys"
  by (simp add: http_calls_def)

lemma receipt_log_console:
  "e \<in> set (receipt_log rt active mc) \<Longrightarrow> \<exists>l. e = ConsoleLog l"
  by (auto simp: receipt_log_def Let_def split: option.splits if_splits)

lemma resolutions_receipt_log: "resolutions (receipt_log rt active mc) = []"
  unfolding resolutions_def filter_empty_conv
  by (auto dest!: receipt_log_console simp: is_resolution_def)

lemma http_calls_receipt_log: "http_calls (receipt_log rt active mc) = []"
  unfolding http_calls_def filter_empty_conv
  by (auto dest!: receipt_log_console simp: is_http_def)

lemma resolutions_callApiService:
  "resolutions (snd (callApiService rt u http active mc bg)) = []"
  by (simp add: callApiService_def Let_def resolutions_def is_resolution_def
        split: sum.splits prod.splits exchange.splits option.splits)

lemma callApiService_cases:
  "callApiService rt u http active mc bg =
     (case api_request rt u mc of
        Inl err \<Rightarrow> (Rejected err, [])
      | Inr (options, body) \<Rightarrow>
          (case http options body of
             RequestError err \<Rightarrow>
               (Rejected err, [ConsoleLog (LCallingApi u), HttpRequest options body,
                               ConsoleError (LApiCallFailed err)])
           | ResponseEnd status responseData \<Rightarrow>
               (case JSON_parse rt responseData of
                  None \<Rightarrow>
                    (Rejected (Error ''Failed to parse API response''),
                     [ConsoleLog (LCallingApi u), HttpRequest options body])
                | Some response \<Rightarrow>
                    (Resolved, [ConsoleLog (LCallingApi u), HttpRequest options body,
                                ConsoleLog (LApiResponse (JSON_stringify rt response))]))
           | NoAnswer \<Rightarrow>
               (Pending, [ConsoleLog (LCallingApi u), HttpRequest options body])))"
  by (simp add: callApiService_def Let_def
        split: sum.splits prod.splits exchange.splits option.splits)

lemma resolutions_processMessage:
  "resolutions (processMessage rt u http chan active msg) =
     (case JSON_parse rt (content msg) of
        None \<Rightarrow> [Nack msg False True]
      | Some mc \<Rightarrow>
          (case fst (callApiService rt u http active mc (getBaggage active)) of
             Resolved \<Rightarrow>
               (case ack_throws chan msg of
                  None \<Rightarrow> [Ack msg]
                | Some err \<Rightarrow> [Ack msg, Nack msg False True])
           | Rejected err \<Rightarrow> [Nack msg False True]
           | Pending \<Rightarrow> []))"
proof (cases "JSON_parse rt (content msg)")
  case None
  then show ?thesis
    by (simp add: processMessage_def resolutions_def is_resolution_def)
next
  case (Some mc)
  obtain r evs where c: "callApiService rt u http active mc (getBaggage active) = (r, evs)"
    by (cases "callApiService rt u http active mc (getBaggage active)")
  have evs: "resolutions evs = []"
    using resolutions_callApiService [of rt u http active mc "getBaggage active"] c by simp
  have tail: "resolutions [ConsoleLog LProcessed, Ack msg] = [Ack msg]"
    "\<And>err. resolutions [ConsoleError (LErrorProcessing err), Nack msg False True] =
       [Nack msg False True]"
    "\<And>err. resolutions [ConsoleLog LProcessed, Ack msg,
                         ConsoleError (LErrorProcessing err), Nack msg False True] =
       [Ack msg, Nack msg False True]"
    by (simp_all add: resolutions_def is_resolution_def)
  show ?thesis
    using Some c evs tail
    by (cases r; cases "ack_throws chan msg")
       (simp_all add: processMessage_def resolutions_append resolutions_receipt_log)
qed

lemma unanswered_pending:
  "JSON_parse rt (content msg) = Some mc \<Longrightarrow>
   unanswered rt u http msg = (fst (callApiService rt u http active mc bg) = Pending)"
  by (simp add: unanswered_def callApiService_cases
        split: sum.splits prod.splits exchange.splits option.splits)

text \<open>
  C3. A delivery that enters \<^verbatim>\<open>processMessage\<close> is resolved exactly once, by the ack
  of this message or by its nack with requeue, whatever the payload, the active context
  and the outcome of the downstream call are, provided that call is answered (the
  request emits \<^verbatim>\<open>error\<close> or the response ends) and \<^verbatim>\<open>ack\<close> returns.
\<close>

theorem processMessage_resolves_once:
  "\<not> unanswered rt API_SERVICE_URL http msg \<Longrightarrow> ack_throws chan msg = None \<Longrightarrow>
   resolutions (processMessage rt API_SERVICE_URL http chan active msg) = [Ack msg] \<or>
   resolutions (processMessage rt API_SERVICE_URL http chan active msg) = [Nack msg False True]"
proof (cases "JSON_parse rt (content msg)")
  case None
  then show ?thesis by (simp add: resolutions_processMessage)
next
  case (Some mc)
  assume "\<not> unanswered rt API_SERVICE_URL http msg" and ack: "ack_throws chan msg = None"
  then have "fst (callApiService rt API_SERVICE_URL http active mc (getBaggage active)) \<noteq> Pending"
    using unanswered_pending [OF Some] by simp
  then show ?thesis
    using Some ack
    by (cases "fst (callApiService rt API_SERVICE_URL http active mc (getBaggage active))")
       (simp_all add: resolutions_processMessage)
qed

lemmas str_eval = toString_def string_of_nat.simps digit_char_def quote_def

lemma stringify_message1: \<open>stringify message1 = ''{"id":1,"timestamp":"2024-01-01T00:00:00Z","data":"Message 1"}''\<close>
  by (simp add: message1_def str_eval)
lemma stringify_request1: \<open>stringify request1 = ''{"messageId":1,"timestamp":"2024-01-01T00:00:00Z","data":"Message 1"}''\<close>
  by (simp add: request1_def str_eval)
lemma stringify_error500: \<open>stringify error500 = ''{"error":"Internal server error"}''\<close>
  by (simp add: error500_def str_eval)
lemma stringify_echo_empty: \<open>stringify (echo []) = ''{"success":true,"messageId":1,"processedAt":"2024-01-01T00:00:01Z","baggageReceived":{}}''\<close>
  by (simp add: echo_def str_eval)
lemma stringify_empty: \<open>stringify (JObj []) = ''{}''\<close>
  by simp

lemmas stringify_known = stringify_message1 stringify_request1 stringify_error500 stringify_echo_empty stringify_empty

lemma demo_parse_known:
  \<open>demo_parse ''{"id":1,"timestamp":"2024-01-01T00:00:00Z","data":"Message 1"}'' = Some message1\<close>
  \<open>demo_parse ''{"messageId":1,"timestamp":"2024-01-01T00:00:00Z","data":"Message 1"}'' = Some request1\<close>
  \<open>demo_parse ''{"error":"Internal server error"}'' = Some error500\<close>
  \<open>demo_parse ''{"success":true,"messageId":1,"processedAt":"2024-01-01T00:00:01Z","baggageReceived":{}}'' = Some (echo [])\<close>
  \<open>demo_parse ''{}'' = Some (JObj [])\<close>
  \<open>demo_parse ''not json'' = None\<close>
  \<open>demo_parse ''<html>Bad Gateway</html>'' = None\<close>
  by (simp_all add: demo_parse_def known_def stringify_known)

lemma demo_rt_sel:
  "JSON_parse demo_rt = demo_parse" "JSON_stringify demo_rt = stringify" "new_URL demo_rt = demo_URL"
  by (simp_all add: demo_rt_def)

lemma postData_message1:
  \<open>postData demo_rt message1 = Inr ''{"messageId":1,"timestamp":"2024-01-01T00:00:00Z","data":"Message 1"}''\<close>
  by (simp add: postData_def get_prop_def message1_def demo_rt_sel str_eval)

lemma api_request_message1:
  \<open>api_request demo_rt ''http://localhost:3000'' message1 =
     Inr (\<lparr>hostname = ''localhost'', port = ''3000'', path = ''/process'', http_method = ''POST'',
           headers = None\<rparr>,
          ''{"messageId":1,"timestamp":"2024-01-01T00:00:00Z","data":"Message 1"}'')\<close>
  by (simp add: api_request_def postData_message1 demo_rt_sel demo_URL_def request_options_of_def)

lemma api_request_empty:
  \<open>api_request demo_rt ''http://localhost:3000'' (JObj []) =
     Inr (\<lparr>hostname = ''localhost'', port = ''3000'', path = ''/process'', http_method = ''POST'',
           headers = None\<rparr>, ''{}'')\<close>
  by (simp add: api_request_def postData_def get_prop_def demo_rt_sel demo_URL_def request_options_of_def)

lemma http_calls_processMessage:
  "http_calls (processMessage rt u http chan active msg) =
     (case JSON_parse rt (content msg) of
        None \<Rightarrow> []
      | Some mc \<Rightarrow>
          (case api_request rt u mc of
             Inl err \<Rightarrow> []
           | Inr (options, body) \<Rightarrow> [HttpRequest options body]))"
proof (cases "JSON_parse rt (content msg)")
  case None
  then show ?thesis
    by (simp add: processMessage_def http_calls_def is_http_def)
next
  case (Some mc)
  have call: "http_calls (snd (callApiService rt u http active mc (getBaggage active))) =
     (case api_request rt u mc of
             Inl err \<Rightarrow> []
           | Inr (options, body) \<Rightarrow> [HttpRequest options body])"
    by (simp add: callApiService_cases http_calls_def is_http_def
          split: sum.splits prod.splits exchange.splits option.splits)
  obtain r evs where c: "callApiService rt u http active mc (getBaggage active) = (r, evs)"
    by (cases "callApiService rt u http active mc (getBaggage active)")
  have tail: "http_calls [ConsoleLog LProcessed, Ack msg] = []"
    "\<And>err. http_calls [ConsoleError (LErrorProcessing err), Nack msg False True] = []"
    "\<And>err. http_calls [ConsoleLog LProcessed, Ack msg,
                        ConsoleError (LErrorProcessing err), Nack msg False True] = []"
    by (simp_all add: http_calls_def is_http_def)
  show ?thesis
    using Some c call tail
    by (cases r; cases "ack_throws chan msg")
       (simp_all add: processMessage_def http_calls_append http_calls_receipt_log)
qed

lemma callApiService_fails:
  "api_request rt u mc = Inr (options, body) \<Longrightarrow>
   rejected (fst (callApiService rt u http active mc bg)) =
     (case http options body of
        RequestError err \<Rightarrow> True
      | ResponseEnd status responseData \<Rightarrow> JSON_parse rt responseData = None
      | NoAnswer \<Rightarrow> False)"
  by (simp add: callApiService_cases rejected_def split: exchange.splits option.splits)

text \<open>
  C2. When the payload parses and the request is built, the adapter fails exactly when
  the request ends in a transport error or the response body is not JSON, and then the
  message is nacked with requeue and not acked. Both failures reach \<^verbatim>\<open>processMessage\<close>
  as the same rejection. The status of the response is not read: a response whose body
  parses is a success whatever its status, and the message is acked (when \<^verbatim>\<open>ack\<close>
  itself throws, the nack follows it). A call that is never answered is neither a
  success nor a failure, and resolves nothing.
\<close>

theorem downstream_failure_nacks:
  "JSON_parse rt (content msg) = Some mc \<Longrightarrow>
   api_request rt API_SERVICE_URL mc = Inr (options, body) \<Longrightarrow>
   rejected (fst (callApiService rt API_SERVICE_URL http active mc (getBaggage active))) =
     (case http options body of
        RequestError err \<Rightarrow> True
      | ResponseEnd status responseData \<Rightarrow> JSON_parse rt responseData = None
      | NoAnswer \<Rightarrow> False) \<and>
   resolutions (processMessage rt API_SERVICE_URL http chan active msg) =
     (case http options body of
        RequestError err \<Rightarrow> [Nack msg False True]
      | ResponseEnd status responseData \<Rightarrow>
          (if JSON_parse rt responseData = None then [Nack msg False True]
           else (case ack_throws chan msg of
                   None \<Rightarrow> [Ack msg]
                 | Some err \<Rightarrow> [Ack msg, Nack msg False True]))
      | NoAnswer \<Rightarrow> [])"
  by (simp add: resolutions_processMessage callApiService_cases rejected_def
        split: exchange.splits option.splits)

theorem downstream_failure_nacks_witness:
  \<open>resolutions (processMessage demo_rt ''http://localhost:3000'' (refuse (Error ''ECONNREFUSED''))
      ack_returns scenario_context
      (delivery ''{"id":1,"timestamp":"2024-01-01T00:00:00Z","data":"Message 1"}'')) =
     [Nack (delivery ''{"id":1,"timestamp":"2024-01-01T00:00:00Z","data":"Message 1"}'') False True] \<and>
   resolutions (processMessage demo_rt ''http://localhost:3000'' (answer 502 ''<html>Bad Gateway</html>'')
      ack_returns scenario_context
      (delivery ''{"id":1,"timestamp":"2024-01-01T00:00:00Z","data":"Message 1"}'')) =
     [Nack (delivery ''{"id":1,"timestamp":"2024-01-01T00:00:00Z","data":"Message 1"}'') False True]\<close>
proof -
  let ?msg = \<open>delivery ''{"id":1,"timestamp":"2024-01-01T00:00:00Z","data":"Message 1"}''\<close>
  have parse: "JSON_parse demo_rt (content ?msg) = Some message1"
    by (simp add: delivery_def demo_rt_sel demo_parse_known)
  have bad: \<open>JSON_parse demo_rt ''<html>Bad Gateway</html>'' = None\<close>
    by (simp add: demo_rt_sel demo_parse_known)
  show ?thesis
    using downstream_failure_nacks [OF parse api_request_message1,
            of "refuse (Error ''ECONNREFUSED'')" scenario_context ack_returns]
          downstream_failure_nacks [OF parse api_request_message1,
            of "answer 502 ''<html>Bad Gateway</html>''" scenario_context ack_returns]
          bad
    by (simp add: refuse_def answer_def)
qed

text \<open>
  A response with status 500 and the receiving service's JSON error body is a success
  for the adapter: the message is acked, not nacked.
\<close>

theorem http_500_is_acked:
  \<open>resolutions (processMessage demo_rt ''http://localhost:3000''
      (answer 500 ''{"error":"Internal server error"}'') ack_returns
      scenario_context (delivery ''{"id":1,"timestamp":"2024-01-01T00:00:00Z","data":"Message 1"}'')) =
     [Ack (delivery ''{"id":1,"timestamp":"2024-01-01T00:00:00Z","data":"Message 1"}'')]\<close>
  by (simp add: resolutions_processMessage callApiService_cases api_request_message1
        delivery_def demo_rt_sel demo_parse_known answer_def ack_returns_def)

text \<open>
  C6. A message whose payload is not valid JSON is nacked with requeue; the trace is
  the error report and the nack, so no HTTP call is made and the process does not
  exit. (A payload that is valid JSON is not checked for the fields \<open>id\<close>,
  \<open>timestamp\<close> and \<open>data\<close>.)
\<close>

theorem invalid_json_is_nacked:
  "JSON_parse rt (content msg) = None \<Longrightarrow>
   processMessage rt API_SERVICE_URL http chan active msg =
     [ConsoleError (LErrorProcessing (SyntaxError ''Unexpected token in JSON'')),
      Nack msg False True] \<and>
   http_calls (processMessage rt API_SERVICE_URL http chan active msg) = [] \<and>
   resolutions (processMessage rt API_SERVICE_URL http chan active msg) = [Nack msg False True] \<and>
   filter is_exit (processMessage rt API_SERVICE_URL http chan active msg) = []"
  by (simp add: processMessage_def http_calls_def resolutions_def is_http_def is_resolution_def
        is_exit_def)

theorem invalid_json_is_nacked_witness:
  "processMessage demo_rt ''http://localhost:3000''
     (downstream demo_rt fw_undefined ''2024-01-01T00:00:01Z'' []) ack_returns
     scenario_context (delivery ''not json'') =
     [ConsoleError (LErrorProcessing (SyntaxError ''Unexpected token in JSON'')),
      Nack (delivery ''not json'') False True]"
proof -
  have parse: "JSON_parse demo_rt (content (delivery ''not json'')) = None"
    by (simp add: delivery_def demo_rt_sel demo_parse_known)
  show ?thesis
    using invalid_json_is_nacked [OF parse] by simp
qed

text \<open>
  The payload \<^verbatim>\<open>{}\<close> is valid JSON without any of the three fields; the downstream
  call is made with the body \<^verbatim>\<open>{}\<close> and, the service answering, the message is acked.
\<close>

theorem missing_fields_reach_the_service:
  \<open>JSON_parse demo_rt (content (delivery ''{}'')) = Some (JObj []) \<and>
   get_prop (JObj []) ''id'' = Inr None \<and>
   get_prop (JObj []) ''timestamp'' = Inr None \<and>
   get_prop (JObj []) ''data'' = Inr None \<and>
   http_calls (processMessage demo_rt ''http://localhost:3000''
      (answer 200 ''{"success":true,"messageId":1,"processedAt":"2024-01-01T00:00:01Z","baggageReceived":{}}'')
      ack_returns no_context (delivery ''{}'')) =
     [HttpRequest \<lparr>hostname = ''localhost'', port = ''3000'', path = ''/process'',
                    http_method = ''POST'', headers = None\<rparr> ''{}''] \<and>
   resolutions (processMessage demo_rt ''http://localhost:3000''
      (answer 200 ''{"success":true,"messageId":1,"processedAt":"2024-01-01T00:00:01Z","baggageReceived":{}}'')
      ack_returns no_context (delivery ''{}'')) = [Ack (delivery ''{}'')]\<close>
  by (simp add: resolutions_processMessage http_calls_processMessage callApiService_cases
        api_request_empty get_prop_def delivery_def demo_rt_sel demo_parse_known answer_def
        ack_returns_def)

theorem processMessage_resolves_once_witness:
  \<open>\<not> unanswered demo_rt ''http://localhost:3000''
        (answer 200 ''{"success":true,"messageId":1,"processedAt":"2024-01-01T00:00:01Z","baggageReceived":{}}'')
        (delivery ''{"id":1,"timestamp":"2024-01-01T00:00:00Z","data":"Message 1"}'') \<and>
   ack_throws ack_returns
     (delivery ''{"id":1,"timestamp":"2024-01-01T00:00:00Z","data":"Message 1"}'') = None \<and>
   (resolutions (processMessage demo_rt ''http://localhost:3000''
       (answer 200 ''{"success":true,"messageId":1,"processedAt":"2024-01-01T00:00:01Z","baggageReceived":{}}'')
       ack_returns scenario_context
       (delivery ''{"id":1,"timestamp":"2024-01-01T00:00:00Z","data":"Message 1"}'')) =
      [Ack (delivery ''{"id":1,"timestamp":"2024-01-01T00:00:00Z","data":"Message 1"}'')] \<or>
    resolutions (processMessage demo_rt ''http://localhost:3000''
       (answer 200 ''{"success":true,"messageId":1,"processedAt":"2024-01-01T00:00:01Z","baggageReceived":{}}'')
       ack_returns scenario_context
       (delivery ''{"id":1,"timestamp":"2024-01-01T00:00:00Z","data":"Message 1"}'')) =
      [Nack (delivery ''{"id":1,"timestamp":"2024-01-01T00:00:00Z","data":"Message 1"}'') False True])\<close>
proof -
  let ?msg = \<open>delivery ''{"id":1,"timestamp":"2024-01-01T00:00:00Z","data":"Message 1"}''\<close>
  let ?http = \<open>answer 200 ''{"success":true,"messageId":1,"processedAt":"2024-01-01T00:00:01Z","baggageReceived":{}}''\<close>
  have answered: "\<not> unanswered demo_rt ''http://localhost:3000'' ?http ?msg"
    by (simp add: unanswered_def delivery_def demo_rt_sel demo_parse_known api_request_message1
          answer_def)
  have ack: "ack_throws ack_returns ?msg = None"
    by (simp add: ack_returns_def)
  show ?thesis
    using processMessage_resolves_once [OF answered ack, of scenario_context] answered ack
    by simp
qed

text \<open>
  A service that never answers leaves the delivery without any resolution; an \<^verbatim>\<open>ack\<close>
  that throws is followed by the nack of the same delivery.
\<close>

theorem unanswered_call_and_failed_ack:
  \<open>resolutions (processMessage demo_rt ''http://localhost:3000'' silent ack_returns
      scenario_context
      (delivery ''{"id":1,"timestamp":"2024-01-01T00:00:00Z","data":"Message 1"}'')) = [] \<and>
   resolutions (processMessage demo_rt ''http://localhost:3000''
      (answer 200 ''{"success":true,"messageId":1,"processedAt":"2024-01-01T00:00:01Z","baggageReceived":{}}'')
      (ack_fails (Error ''Channel closed'')) scenario_context
      (delivery ''{"id":1,"timestamp":"2024-01-01T00:00:00Z","data":"Message 1"}'')) =
     [Ack (delivery ''{"id":1,"timestamp":"2024-01-01T00:00:00Z","data":"Message 1"}''),
      Nack (delivery ''{"id":1,"timestamp":"2024-01-01T00:00:00Z","data":"Message 1"}'') False True]\<close>
  by (simp add: resolutions_processMessage callApiService_cases api_request_message1
        delivery_def demo_rt_sel demo_parse_known answer_def silent_def ack_returns_def
        ack_fails_def)

lemma decode_prefixed:
  "map (\<lambda>(k, v). (drop (length p) k, v))
     (filter (\<lambda>(k, v). has_prefix p k) (map (\<lambda>(k, v). (p @ k, v)) xs)) = xs"
  by (induction xs) (auto simp: has_prefix_def)

lemma decode_baggage_encode: "decode_baggage (encode c) = entries c"
proof -
  have trace: "filter (\<lambda>(k, v). has_prefix baggage_prefix k)
      (case ctx_span c of None \<Rightarrow> []
       | Some sc \<Rightarrow> [(''trace-id'', traceId sc), (''span-id'', spanId sc)]) = []"
    by (simp add: has_prefix_def baggage_prefix_def split: option.splits)
  show ?thesis
    by (simp add: decode_baggage_def encode_def trace decode_prefixed)
qed

lemma map_of_prefixed:
  "\<not> has_prefix p key \<Longrightarrow> map_of (map (\<lambda>(k, v). (p @ k, v)) xs) key = None"
  by (induction xs) (auto simp: has_prefix_def)

lemma map_of_encode:
  "\<not> has_prefix baggage_prefix key \<Longrightarrow>
   map_of (encode c) key =
     map_of (case ctx_span c of None \<Rightarrow> []
             | Some sc \<Rightarrow> [(''trace-id'', traceId sc), (''span-id'', spanId sc)]) key"
  by (simp add: encode_def map_add_def map_of_prefixed)

lemma ctx_span_decode_encode: "ctx_span (decode (encode c)) = ctx_span c"
proof -
  have t: "\<not> has_prefix baggage_prefix ''trace-id''" and s: "\<not> has_prefix baggage_prefix ''span-id''"
    by (simp_all add: has_prefix_def baggage_prefix_def)
  show ?thesis
    by (cases "ctx_span c") (simp_all add: decode_def map_of_encode [OF t] map_of_encode [OF s])
qed

lemma entries_decode: "entries (decode carrier) = decode_baggage carrier"
  by (simp add: entries_def decode_def)

text \<open>
  C4. Decoding the carrier of a context gives back its baggage entries, in order and so
  with the same value under every key, and its trace reference, for any number of
  entries and any keys and values (empty strings and punctuation included).
\<close>

theorem decode_encode_roundtrip:
  "entries (decode (encode c)) = entries c \<and>
   getEntry (entries (decode (encode c))) k = getEntry (entries c) k \<and>
   ctx_span (decode (encode c)) = ctx_span c"
  by (simp add: entries_decode decode_baggage_encode ctx_span_decode_encode)

text \<open>
  C9. Called with \<^verbatim>\<open>null\<close>, the delivery callback returns without any effect: no
  processing, no ack and no nack. Called with a delivery, it hands it to
  \<^verbatim>\<open>processMessage\<close>.
\<close>

theorem on_delivery_null_is_ignored:
  "on_delivery rt API_SERVICE_URL http chan active None = (Inr (), []) \<and>
   on_delivery rt API_SERVICE_URL http chan active (Some m) =
     (Inr (), processMessage rt API_SERVICE_URL http chan active m)"
  by (simp add: on_delivery_def)

lemma prepared_headers_scenario:
  \<open>prepared_headers scenario_context (getBaggage scenario_context)
      ''{"messageId":1,"timestamp":"2024-01-01T00:00:00Z","data":"Message 1"}'' =
    [(''Content-Type'', ''application/json''), (''Content-Length'', ''69''),
     (''baggage-user.id'', ''user-1001''), (''baggage-message.number'', ''1'')]\<close>
  by (simp add: prepared_headers_def scenario_context_def getBaggage_def setBaggage_def encode_def
        entries_def baggage_prefix_def str_eval)

lemma encode_scenario:
  "encode scenario_context =
     [(''baggage-user.id'', ''user-1001''), (''baggage-message.number'', ''1'')]"
  by (simp add: encode_def scenario_context_def entries_def baggage_prefix_def)

lemma decode_prepared:
  "getBaggage (decode [(''Content-Type'', ''application/json''), (''Content-Length'', ''69''),
     (''baggage-user.id'', ''user-1001''), (''baggage-message.number'', ''1'')]) =
   Some [(''user.id'', ''user-1001''), (''message.number'', ''1'')]"
  by (simp add: getBaggage_def decode_def decode_baggage_def has_prefix_def baggage_prefix_def)

lemma decode_injected:
  "getBaggage (decode [(''baggage-user.id'', ''user-1001''), (''baggage-message.number'', ''1'')]) =
   Some [(''user.id'', ''user-1001''), (''message.number'', ''1'')]"
  by (simp add: getBaggage_def decode_def decode_baggage_def has_prefix_def baggage_prefix_def)

lemma decode_nothing: "getBaggage (decode []) = None"
  by (simp add: getBaggage_def decode_def decode_baggage_def)

lemmas receiver_eval =
  downstream_def api_service_def express_json_def on_wire_def process_route_def sent_headers_def
  fw_undefined_def fw_empty_object_def demo_rt_sel demo_parse_known request1_def get_prop_def
  decode_nothing decode_injected decode_prepared getAllEntries_def str_eval

text \<open>
  C1. The consumer's request in the end-to-end scenario (baggage \<open>user.id\<close> and
  \<open>message.number\<close> active, message 1). The adapter prepares headers that hold the
  content type and the carrier, but the request it issues has no headers. The request
  then reaches the receiving service without a content type and its body is not parsed.
  Where the framework leaves the body undefined, the service answers 500 with its error
  body and echoes no baggage, whether or not the instrumentation has added the carrier
  to the outgoing request. Where the framework puts an empty object, the service answers
  200 without \<open>messageId\<close>, and \<open>baggageReceived\<close> holds what the instrumentation has
  added: nothing when it adds nothing, both entries when it adds the carrier. Had the
  prepared headers been sent, the service would have answered 200 with \<open>messageId\<close> 1
  and both entries without any help.
\<close>

theorem request_is_sent_without_headers:
  \<open>prepared_headers scenario_context (getBaggage scenario_context)
      ''{"messageId":1,"timestamp":"2024-01-01T00:00:00Z","data":"Message 1"}'' =
     [(''Content-Type'', ''application/json''), (''Content-Length'', ''69''),
      (''baggage-user.id'', ''user-1001''), (''baggage-message.number'', ''1'')] \<and>
   http_calls (processMessage demo_rt ''http://localhost:3000''
      (downstream demo_rt fw_undefined ''2024-01-01T00:00:01Z'' (encode scenario_context))
      ack_returns scenario_context
      (delivery ''{"id":1,"timestamp":"2024-01-01T00:00:00Z","data":"Message 1"}'')) =
     [HttpRequest \<lparr>hostname = ''localhost'', port = ''3000'', path = ''/process'',
                    http_method = ''POST'', headers = None\<rparr>
        ''{"messageId":1,"timestamp":"2024-01-01T00:00:00Z","data":"Message 1"}''] \<and>
   downstream demo_rt fw_undefined ''2024-01-01T00:00:01Z'' []
     \<lparr>hostname = ''localhost'', port = ''3000'', path = ''/process'',
      http_method = ''POST'', headers = None\<rparr>
     ''{"messageId":1,"timestamp":"2024-01-01T00:00:00Z","data":"Message 1"}'' =
     ResponseEnd 500 ''{"error":"Internal server error"}'' \<and>
   downstream demo_rt fw_undefined ''2024-01-01T00:00:01Z'' (encode scenario_context)
     \<lparr>hostname = ''localhost'', port = ''3000'', path = ''/process'',
      http_method = ''POST'', headers = None\<rparr>
     ''{"messageId":1,"timestamp":"2024-01-01T00:00:00Z","data":"Message 1"}'' =
     ResponseEnd 500 ''{"error":"Internal server error"}'' \<and>
   downstream demo_rt fw_empty_object ''2024-01-01T00:00:01Z'' []
     \<lparr>hostname = ''localhost'', port = ''3000'', path = ''/process'',
      http_method = ''POST'', headers = None\<rparr>
     ''{"messageId":1,"timestamp":"2024-01-01T00:00:00Z","data":"Message 1"}'' =
     ResponseEnd 200
       ''{"success":true,"processedAt":"2024-01-01T00:00:01Z","baggageReceived":{}}'' \<and>
   downstream demo_rt fw_empty_object ''2024-01-01T00:00:01Z'' (encode scenario_context)
     \<lparr>hostname = ''localhost'', port = ''3000'', path = ''/process'',
      http_method = ''POST'', headers = None\<rparr>
     ''{"messageId":1,"timestamp":"2024-01-01T00:00:00Z","data":"Message 1"}'' =
     ResponseEnd 200
       ''{"success":true,"processedAt":"2024-01-01T00:00:01Z","baggageReceived":{"user.id":"user-1001","message.number":"1"}}'' \<and>
   downstream demo_rt fw_undefined ''2024-01-01T00:00:01Z'' []
     \<lparr>hostname = ''localhost'', port = ''3000'', path = ''/process'',
      http_method = ''POST'',
      headers = Some [(''Content-Type'', ''application/json''), (''Content-Length'', ''69''),
                      (''baggage-user.id'', ''user-1001''), (''baggage-message.number'', ''1'')]\<rparr>
     ''{"messageId":1,"timestamp":"2024-01-01T00:00:00Z","data":"Message 1"}'' =
     ResponseEnd 200
       ''{"success":true,"messageId":1,"processedAt":"2024-01-01T00:00:01Z","baggageReceived":{"user.id":"user-1001","message.number":"1"}}''\<close>
proof (intro conjI)
  show \<open>prepared_headers scenario_context (getBaggage scenario_context)
      ''{"messageId":1,"timestamp":"2024-01-01T00:00:00Z","data":"Message 1"}'' =
     [(''Content-Type'', ''application/json''), (''Content-Length'', ''69''),
      (''baggage-user.id'', ''user-1001''), (''baggage-message.number'', ''1'')]\<close>
    by (rule prepared_headers_scenario)
  show \<open>http_calls (processMessage demo_rt ''http://localhost:3000''
      (downstream demo_rt fw_undefined ''2024-01-01T00:00:01Z'' (encode scenario_context))
      ack_returns scenario_context
      (delivery ''{"id":1,"timestamp":"2024-01-01T00:00:00Z","data":"Message 1"}'')) =
     [HttpRequest \<lparr>hostname = ''localhost'', port = ''3000'', path = ''/process'',
                    http_method = ''POST'', headers = None\<rparr>
        ''{"messageId":1,"timestamp":"2024-01-01T00:00:00Z","data":"Message 1"}'']\<close>
    by (simp add: http_calls_processMessage api_request_message1 delivery_def demo_rt_sel
          demo_parse_known)
  show \<open>downstream demo_rt fw_undefined ''2024-01-01T00:00:01Z'' []
     \<lparr>hostname = ''localhost'', port = ''3000'', path = ''/process'',
      http_method = ''POST'', headers = None\<rparr>
     ''{"messageId":1,"timestamp":"2024-01-01T00:00:00Z","data":"Message 1"}'' =
     ResponseEnd 500 ''{"error":"Internal server error"}''\<close>
    by (simp add: receiver_eval)
  show \<open>downstream demo_rt fw_undefined ''2024-01-01T00:00:01Z'' (encode scenario_context)
     \<lparr>hostname = ''localhost'', port = ''3000'', path = ''/process'',
      http_method = ''POST'', headers = None\<rparr>
     ''{"messageId":1,"timestamp":"2024-01-01T00:00:00Z","data":"Message 1"}'' =
     ResponseEnd 500 ''{"error":"Internal server error"}''\<close>
    by (simp add: encode_scenario receiver_eval)
  show \<open>downstream demo_rt fw_empty_object ''2024-01-01T00:00:01Z'' []
     \<lparr>hostname = ''localhost'', port = ''3000'', path = ''/process'',
      http_method = ''POST'', headers = None\<rparr>
     ''{"messageId":1,"timestamp":"2024-01-01T00:00:00Z","data":"Message 1"}'' =
     ResponseEnd 200
       ''{"success":true,"processedAt":"2024-01-01T00:00:01Z","baggageReceived":{}}''\<close>
    by (simp add: receiver_eval)
  show \<open>downstream demo_rt fw_empty_object ''2024-01-01T00:00:01Z'' (encode scenario_context)
     \<lparr>hostname = ''localhost'', port = ''3000'', path = ''/process'',
      http_method = ''POST'', headers = None\<rparr>
     ''{"messageId":1,"timestamp":"2024-01-01T00:00:00Z","data":"Message 1"}'' =
     ResponseEnd 200
       ''{"success":true,"processedAt":"2024-01-01T00:00:01Z","baggageReceived":{"user.id":"user-1001","message.number":"1"}}''\<close>
    by (simp add: encode_scenario receiver_eval)
  show \<open>downstream demo_rt fw_undefined ''2024-01-01T00:00:01Z'' []
     \<lparr>hostname = ''localhost'', port = ''3000'', path = ''/process'',
      http_method = ''POST'',
      headers = Some [(''Content-Type'', ''application/json''), (''Content-Length'', ''69''),
                      (''baggage-user.id'', ''user-1001''), (''baggage-message.number'', ''1'')]\<rparr>
     ''{"messageId":1,"timestamp":"2024-01-01T00:00:00Z","data":"Message 1"}'' =
     ResponseEnd 200
       ''{"success":true,"messageId":1,"processedAt":"2024-01-01T00:00:01Z","baggageReceived":{"user.id":"user-1001","message.number":"1"}}''\<close>
    by (simp add: receiver_eval)
qed

section \<open>Properties of the publisher\<close>

lemma sent_append: "sent (xs @ ys) = sent xs @ sent ys"
  by (induction xs rule: sent.induct) simp_all

lemma sent_connect_loop: "sent (snd (connect_loop b u m d a)) = []"
proof (induction b u m d a rule: connect_loop.induct)
  case (1 b u m d a)
  show ?case
  proof (cases "a \<le> m")
    case False
    then show ?thesis by simp
  next
    case le: True
    show ?thesis
    proof (cases "b a")
      case (Inr c)
      with le show ?thesis by simp
    next
      case (Inl e)
      show ?thesis
      proof (cases "a = m")
        case True
        with Inl show ?thesis by simp
      next
        case False
        with 1 [OF le Inl False] le Inl show ?thesis
          by (simp add: split_beta)
      qed
    qed
  qed
qed

lemma exits_connect_loop: "filter is_exit (snd (connect_loop b u m d a)) = []"
proof (induction b u m d a rule: connect_loop.induct)
  case (1 b u m d a)
  show ?case
  proof (cases "a \<le> m")
    case False
    then show ?thesis by simp
  next
    case le: True
    show ?thesis
    proof (cases "b a")
      case (Inr c)
      with le show ?thesis by (simp add: is_exit_def)
    next
      case (Inl e)
      show ?thesis
      proof (cases "a = m")
        case True
        with Inl show ?thesis by (simp add: is_exit_def)
      next
        case False
        with 1 [OF le Inl False] le Inl show ?thesis
          by (simp add: split_beta is_exit_def)
      qed
    qed
  qed
qed

lemma fst_publishMessageWithBaggage:
  "fst (publishMessageWithBaggage rt env n) =
     (case env_sendToQueue env n of None \<Rightarrow> Inr () | Some err \<Rightarrow> Inl err)"
  by (simp add: publishMessageWithBaggage_def Let_def split: option.splits)

lemma sent_publishMessageWithBaggage:
  "sent (snd (publishMessageWithBaggage rt env n)) =
     [(JSON_stringify rt (message env n), ctxWithBaggage env n)]"
  by (simp add: publishMessageWithBaggage_def Let_def baggageEntries_def sent_append
        split: option.splits)

lemma exits_publishMessageWithBaggage:
  "filter is_exit (snd (publishMessageWithBaggage rt env n)) = []"
  by (simp add: publishMessageWithBaggage_def Let_def baggageEntries_def is_exit_def
        split: option.splits)

lemma failed_publishMessageWithBaggage:
  "env_sendToQueue env n = Some err \<Longrightarrow>
   \<exists>pre. snd (publishMessageWithBaggage rt env n) =
           pre @ [ConsoleError (LErrorPublishing n err)]"
  by (simp add: publishMessageWithBaggage_def Let_def)

lemma publish_loop_done: "\<not> i \<le> 5 \<Longrightarrow> publish_loop rt env i = (Inr (), [])"
  by simp

lemma publish_loop_next:
  "i \<le> 5 \<Longrightarrow> env_sendToQueue env i = None \<Longrightarrow>
   publish_loop rt env i =
     (fst (publish_loop rt env (i + 1)),
      snd (publishMessageWithBaggage rt env i) @ [Sleep 2000] @
      snd (publish_loop rt env (i + 1)))"
  using fst_publishMessageWithBaggage [of rt env i]
  by (subst publish_loop.simps) (simp add: split_beta split: prod.splits sum.splits)

lemma publish_loop_stop:
  "i \<le> 5 \<Longrightarrow> env_sendToQueue env i = Some err \<Longrightarrow>
   publish_loop rt env i = (Inl err, snd (publishMessageWithBaggage rt env i))"
  using fst_publishMessageWithBaggage [of rt env i]
  by (subst publish_loop.simps) (simp add: split_beta split: prod.splits sum.splits)

declare publish_loop.simps [simp del]

lemma publish_loop_all_sent:
  "\<forall>n. i \<le> n \<and> n \<le> 5 \<longrightarrow> env_sendToQueue env n = None \<Longrightarrow>
   fst (publish_loop rt env i) = Inr () \<and>
   sent (snd (publish_loop rt env i)) =
     map (\<lambda>n. (JSON_stringify rt (message env n), ctxWithBaggage env n)) [i..5] \<and>
   filter is_exit (snd (publish_loop rt env i)) = []"
proof (induction rt env i rule: publish_loop.induct)
  case (1 rt env i)
  show ?case
  proof (cases "i \<le> 5")
    case False
    then show ?thesis by (simp add: publish_loop_done)
  next
    case True
    have ok: "env_sendToQueue env i = None" using "1.prems" True by simp
    obtain evs where p: "publishMessageWithBaggage rt env i = (Inr (), evs)"
      using fst_publishMessageWithBaggage [of rt env i] ok
      by (cases "publishMessageWithBaggage rt env i") simp
    have ih: "fst (publish_loop rt env (i + 1)) = Inr () \<and>
      sent (snd (publish_loop rt env (i + 1))) =
        map (\<lambda>n. (JSON_stringify rt (message env n), ctxWithBaggage env n)) [i + 1..5] \<and>
      filter is_exit (snd (publish_loop rt env (i + 1))) = []"
      using "1.IH" [OF True p [symmetric] refl] "1.prems" by simp
    have up: "[i..5] = i # [i + 1..5]" using True by (simp add: upto_rec1)
    have sl: "\<not> is_exit (Sleep 2000)" by (simp add: is_exit_def)
    show ?thesis
      using ih up sl
      by (simp add: publish_loop_next [OF True ok] sent_append sent_publishMessageWithBaggage
            exits_publishMessageWithBaggage)
  qed
qed

lemma publish_loop_first_failure:
  "i \<le> j \<Longrightarrow> j \<le> 5 \<Longrightarrow> \<forall>n. i \<le> n \<and> n < j \<longrightarrow> env_sendToQueue env n = None \<Longrightarrow>
   env_sendToQueue env j = Some err \<Longrightarrow>
   fst (publish_loop rt env i) = Inl err \<and>
   sent (snd (publish_loop rt env i)) =
     map (\<lambda>n. (JSON_stringify rt (message env n), ctxWithBaggage env n)) [i..j] \<and>
   (\<exists>pre. snd (publish_loop rt env i) = pre @ [ConsoleError (LErrorPublishing j err)])"
proof (induction rt env i rule: publish_loop.induct)
  case (1 rt env i)
  have le5: "i \<le> 5" using "1.prems" by simp
  show ?case
  proof (cases "i = j")
    case True
    have stop: "publish_loop rt env j = (Inl err, snd (publishMessageWithBaggage rt env j))"
      using publish_loop_stop [OF "1.prems"(2) "1.prems"(4)] .
    show ?thesis
      using failed_publishMessageWithBaggage [OF "1.prems"(4), of rt] True
      by (simp add: stop sent_publishMessageWithBaggage)
  next
    case False
    then have lt: "i < j" using "1.prems"(1) by simp
    have ok: "env_sendToQueue env i = None" using "1.prems"(3) lt by simp
    obtain evs where p: "publishMessageWithBaggage rt env i = (Inr (), evs)"
      using fst_publishMessageWithBaggage [of rt env i] ok
      by (cases "publishMessageWithBaggage rt env i") simp
    have ih: "fst (publish_loop rt env (i + 1)) = Inl err \<and>
      sent (snd (publish_loop rt env (i + 1))) =
        map (\<lambda>n. (JSON_stringify rt (message env n), ctxWithBaggage env n)) [i + 1..j] \<and>
      (\<exists>pre. snd (publish_loop rt env (i + 1)) = pre @ [ConsoleError (LErrorPublishing j err)])"
      using "1.IH" [OF le5 p [symmetric] refl] "1.prems" lt by simp
    then obtain pre where pre: "snd (publish_loop rt env (i + 1)) = pre @ [ConsoleError (LErrorPublishing j err)]"
      by blast
    have up: "[i..j] = i # [i + 1..j]" using lt by (simp add: upto_rec1)
    have tr: "snd (publish_loop rt env i) =
       (snd (publishMessageWithBaggage rt env i) @ [Sleep 2000] @ pre) @
       [ConsoleError (LErrorPublishing j err)]"
      by (simp add: publish_loop_next [OF le5 ok] pre)
    show ?thesis
      using ih up tr
      by (simp add: publish_loop_next [OF le5 ok] sent_append sent_publishMessageWithBaggage)
  qed
qed

lemma publish_loop_returned:
  "fst (publish_loop rt env i) = Inr u \<Longrightarrow>
   sent (snd (publish_loop rt env i)) =
     map (\<lambda>n. (JSON_stringify rt (message env n), ctxWithBaggage env n)) [i..5]"
proof (induction rt env i rule: publish_loop.induct)
  case (1 rt env i)
  show ?case
  proof (cases "i \<le> 5")
    case False
    then show ?thesis by (simp add: publish_loop_done)
  next
    case True
    show ?thesis
    proof (cases "env_sendToQueue env i")
      case (Some err)
      with "1.prems" publish_loop_stop [OF True Some, of rt] show ?thesis by simp
    next
      case None
      obtain evs where p: "publishMessageWithBaggage rt env i = (Inr (), evs)"
        using fst_publishMessageWithBaggage [of rt env i] None
        by (cases "publishMessageWithBaggage rt env i") simp
      have r: "fst (publish_loop rt env (i + 1)) = Inr u"
        using "1.prems" by (simp add: publish_loop_next [OF True None])
      have ih: "sent (snd (publish_loop rt env (i + 1))) =
        map (\<lambda>n. (JSON_stringify rt (message env n), ctxWithBaggage env n)) [i + 1..5]"
        using "1.IH" [OF True p [symmetric] refl r] .
      have up: "[i..5] = i # [i + 1..5]" using True by (simp add: upto_rec1)
      show ?thesis
        using ih up
        by (simp add: publish_loop_next [OF True None] sent_append sent_publishMessageWithBaggage)
    qed
  qed
qed

lemma publish_loop_prefix:
  "\<exists>k. sent (snd (publish_loop rt env i)) =
     map (\<lambda>n. (JSON_stringify rt (message env n), ctxWithBaggage env n)) (take k [i..5])"
proof (induction rt env i rule: publish_loop.induct)
  case (1 rt env i)
  show ?case
  proof (cases "i \<le> 5")
    case False
    then show ?thesis by (simp add: publish_loop_done)
  next
    case True
    have up: "[i..5] = i # [i + 1..5]" using True by (simp add: upto_rec1)
    show ?thesis
    proof (cases "env_sendToQueue env i")
      case (Some err)
      have "sent (snd (publish_loop rt env i)) =
        map (\<lambda>n. (JSON_stringify rt (message env n), ctxWithBaggage env n)) (take 1 [i..5])"
        by (simp add: publish_loop_stop [OF True Some] sent_publishMessageWithBaggage up)
      then show ?thesis by blast
    next
      case None
      obtain evs where p: "publishMessageWithBaggage rt env i = (Inr (), evs)"
        using fst_publishMessageWithBaggage [of rt env i] None
        by (cases "publishMessageWithBaggage rt env i") simp
      from "1.IH" [OF True p [symmetric] refl]
      obtain k where k: "sent (snd (publish_loop rt env (i + 1))) =
        map (\<lambda>n. (JSON_stringify rt (message env n), ctxWithBaggage env n)) (take k [i + 1..5])"
        by blast
      have "sent (snd (publish_loop rt env i)) =
        map (\<lambda>n. (JSON_stringify rt (message env n), ctxWithBaggage env n)) (take (Suc k) [i..5])"
        by (simp add: publish_loop_next [OF True None] sent_append sent_publishMessageWithBaggage k up)
      then show ?thesis by blast
    qed
  qed
qed

lemma baggage_of_ctxWithBaggage:
  "getEntry (entries (ctxWithBaggage env n)) ''user.id'' = Some (''user-'' @ toString (1000 + n))"
  "getEntry (entries (ctxWithBaggage env n)) ''request.source'' = Some ''api-gateway''"
  "getEntry (entries (ctxWithBaggage env n)) ''session.id'' =
     Some (''session-'' @ toString (env_Date_now env n))"
  "getEntry (entries (ctxWithBaggage env n)) ''message.number'' = Some (toString n)"
  by (simp_all add: ctxWithBaggage_def Let_def entries_def setBaggage_def getEntry_def
        setEntry_def baggageEntries_def update_conv')

lemma sent_publisher_catch: "sent (publisher_catch err ch cn) = []"
  by (simp add: publisher_catch_def)

lemma sent_publishMessages:
  "sent (snd (publishMessages rt env)) =
     (if isl (fst (connectWithRetry (env_broker env) (env_RABBITMQ_URL env) 10 2000)) \<or>
         env_createChannel env \<noteq> None \<or> env_assertQueue env \<noteq> None
      then [] else sent (snd (publish_loop rt env 1)))"
proof -
  have c: "sent (snd (connectWithRetry (env_broker env) (env_RABBITMQ_URL env) 10 2000)) = []"
    unfolding connectWithRetry_def by (rule sent_connect_loop)
  obtain r evs0 where cw: "connectWithRetry (env_broker env) (env_RABBITMQ_URL env) 10 2000 = (r, evs0)"
    by (cases "connectWithRetry (env_broker env) (env_RABBITMQ_URL env) 10 2000")
  obtain q evs2 where pl: "publish_loop rt env 1 = (q, evs2)"
    by (cases "publish_loop rt env 1")
  show ?thesis
    using c cw pl
    by (cases r; cases q)
       (simp_all add: publishMessages_def Let_def sent_append sent_publisher_catch
          split: option.splits)
qed

lemma publishMessages_exit_0:
  "fst (publishMessages rt env) = 0 \<longleftrightarrow>
     \<not> isl (fst (connectWithRetry (env_broker env) (env_RABBITMQ_URL env) 10 2000)) \<and>
     env_createChannel env = None \<and> env_assertQueue env = None \<and>
     \<not> isl (fst (publish_loop rt env 1)) \<and>
     env_channel_close env = None \<and> env_connection_close env = None"
proof -
  obtain r evs0 where cw: "connectWithRetry (env_broker env) (env_RABBITMQ_URL env) 10 2000 = (r, evs0)"
    by (cases "connectWithRetry (env_broker env) (env_RABBITMQ_URL env) 10 2000")
  obtain q evs2 where pl: "publish_loop rt env 1 = (q, evs2)"
    by (cases "publish_loop rt env 1")
  show ?thesis
    using cw pl
    by (cases r; cases q) (simp_all add: publishMessages_def Let_def split: option.splits)
qed

lemma publishMessages_publish_failed:
  "fst (connectWithRetry (env_broker env) (env_RABBITMQ_URL env) 10 2000) = Inr conn \<Longrightarrow>
   env_createChannel env = None \<Longrightarrow> env_assertQueue env = None \<Longrightarrow>
   fst (publish_loop rt env 1) = Inl err \<Longrightarrow>
   publishMessages rt env =
     (1, snd (connectWithRetry (env_broker env) (env_RABBITMQ_URL env) 10 2000) @
         [CreateChannel, AssertQueue QUEUE_NAME False, ConsoleLog (LQueueReady QUEUE_NAME)] @
         snd (publish_loop rt env 1) @
         [ConsoleError (LErrorInPublisher err), ChannelClose, ConnectionClose, ProcessExit 1])"
proof -
  assume a: "fst (connectWithRetry (env_broker env) (env_RABBITMQ_URL env) 10 2000) = Inr conn"
    "env_createChannel env = None" "env_assertQueue env = None"
    "fst (publish_loop rt env 1) = Inl err"
  obtain r evs0 where cw: "connectWithRetry (env_broker env) (env_RABBITMQ_URL env) 10 2000 = (r, evs0)"
    by (cases "connectWithRetry (env_broker env) (env_RABBITMQ_URL env) 10 2000")
  obtain q evs2 where pl: "publish_loop rt env 1 = (q, evs2)"
    by (cases "publish_loop rt env 1")
  show ?thesis
    using a cw pl by (simp add: publishMessages_def Let_def publisher_catch_def)
qed

lemma publishMessages_completed:
  "fst (connectWithRetry (env_broker env) (env_RABBITMQ_URL env) 10 2000) = Inr conn \<Longrightarrow>
   env_createChannel env = None \<Longrightarrow> env_assertQueue env = None \<Longrightarrow>
   fst (publish_loop rt env 1) = Inr () \<Longrightarrow>
   env_channel_close env = None \<Longrightarrow> env_connection_close env = None \<Longrightarrow>
   publishMessages rt env =
     (0, snd (connectWithRetry (env_broker env) (env_RABBITMQ_URL env) 10 2000) @
         [CreateChannel, AssertQueue QUEUE_NAME False, ConsoleLog (LQueueReady QUEUE_NAME)] @
         snd (publish_loop rt env 1) @
         [ConsoleLog LAllPublished, ChannelClose, ConnectionClose, ConsoleLog LConnectionClosed])"
proof -
  assume a: "fst (connectWithRetry (env_broker env) (env_RABBITMQ_URL env) 10 2000) = Inr conn"
    "env_createChannel env = None" "env_assertQueue env = None"
    "fst (publish_loop rt env 1) = Inr ()"
    "env_channel_close env = None" "env_connection_close env = None"
  obtain r evs0 where cw: "connectWithRetry (env_broker env) (env_RABBITMQ_URL env) 10 2000 = (r, evs0)"
    by (cases "connectWithRetry (env_broker env) (env_RABBITMQ_URL env) 10 2000")
  obtain q evs2 where pl: "publish_loop rt env 1 = (q, evs2)"
    by (cases "publish_loop rt env 1")
  show ?thesis
    using a cw pl by (simp add: publishMessages_def Let_def)
qed

lemma publishMessages_close_failed:
  "fst (connectWithRetry (env_broker env) (env_RABBITMQ_URL env) 10 2000) = Inr conn \<Longrightarrow>
   env_createChannel env = None \<Longrightarrow> env_assertQueue env = None \<Longrightarrow>
   fst (publish_loop rt env 1) = Inr () \<Longrightarrow>
   env_channel_close env = Some err \<Longrightarrow>
   fst (publishMessages rt env) = 1"
  using publishMessages_exit_0 [of rt env]
  by (cases "publishMessages rt env")
     (auto simp: publishMessages_def Let_def split: prod.splits sum.splits option.splits)

lemma upto_1_5: "[1..5] = [1, 2, 3, 4, 5::int]"
  by (simp add: upto_rec1)

lemma demo_connect:
  "connectWithRetry (demo_broker 0) ''amqp://localhost:5672'' 10 2000 =
     (Inr (Connection ''amqp://localhost:5672''),
      [ConsoleLog (LConnecting ''amqp://localhost:5672'' 1 10),
       AmqpConnect ''amqp://localhost:5672'', ConsoleLog LConnected])"
  by (simp add: connectWithRetry_def demo_broker_def)

lemma demo_env_sel:
  "env_broker (demo_env send cl) = demo_broker 0"
  "env_RABBITMQ_URL (demo_env send cl) = ''amqp://localhost:5672''"
  "env_createChannel (demo_env send cl) = None"
  "env_assertQueue (demo_env send cl) = None"
  "env_sendToQueue (demo_env send cl) = send"
  "env_channel_close (demo_env send cl) = cl"
  "env_connection_close (demo_env send cl) = None"
  "env_Date_now (demo_env send cl) = (\<lambda>i. 1704067200000 + 2000 * i)"
  "env_toISOString (demo_env send cl) = (\<lambda>i. ''2024-01-01T00:00:00.000Z'')"
  "env_active (demo_env send cl) = no_context"
  by (simp_all add: demo_env_def)

lemma demo_loop_all_sent:
  "fst (publish_loop rt (demo_env all_sent cl) 1) = Inr () \<and>
   sent (snd (publish_loop rt (demo_env all_sent cl) 1)) =
     map (\<lambda>n. (JSON_stringify rt (message (demo_env all_sent cl) n),
                ctxWithBaggage (demo_env all_sent cl) n)) [1..5]"
  using publish_loop_all_sent [of 1 "demo_env all_sent cl" rt]
  by (simp add: demo_env_sel all_sent_def)

lemma demo_run_exit_0: "fst (publishMessages rt (demo_env all_sent None)) = 0"
  by (simp add: publishMessages_exit_0 demo_env_sel demo_connect demo_loop_all_sent)

text \<open>
  C10. A publisher run that ends with status 0 has handed exactly five messages to the
  queue, in the order 1 to 5. The payload of message \<open>n\<close> is the serialised object with
  \<open>id = n\<close>, \<open>timestamp\<close> the clock's ISO reading for that message and
  \<open>data = "Message n"\<close>; the baggage active at the send has \<open>user.id\<close> equal to
  \<open>"user-"\<close> followed by \<open>1000 + n\<close>, \<open>request.source\<close> equal to \<open>"api-gateway"\<close> and
  \<open>message.number\<close> equal to the decimal text of \<open>n\<close>.
\<close>

theorem successful_run_publishes_five:
  "fst (publishMessages rt env) = 0 \<Longrightarrow>
   map fst (sent (snd (publishMessages rt env))) =
     map (\<lambda>n. JSON_stringify rt
                (JObj [(''id'', JNum n),
                       (''timestamp'', JStr (env_toISOString env n)),
                       (''data'', JStr (''Message '' @ toString n))]))
       [1, 2, 3, 4, 5] \<and>
   map (\<lambda>(payload, ctx).
          (getEntry (entries ctx) ''user.id'', getEntry (entries ctx) ''request.source'',
           getEntry (entries ctx) ''message.number''))
       (sent (snd (publishMessages rt env))) =
     map (\<lambda>n. (Some (''user-'' @ toString (1000 + n)), Some ''api-gateway'', Some (toString n)))
       [1, 2, 3, 4, 5]"
proof -
  assume ok: "fst (publishMessages rt env) = 0"
  then have started:
    "\<not> isl (fst (connectWithRetry (env_broker env) (env_RABBITMQ_URL env) 10 2000))"
    "env_createChannel env = None" "env_assertQueue env = None"
    and returned: "\<not> isl (fst (publish_loop rt env 1))"
    by (simp_all add: publishMessages_exit_0)
  from returned obtain u where "fst (publish_loop rt env 1) = Inr u"
    by (cases "fst (publish_loop rt env 1)") auto
  then have "sent (snd (publish_loop rt env 1)) =
     map (\<lambda>n. (JSON_stringify rt (message env n), ctxWithBaggage env n)) [1, 2, 3, 4, 5]"
    using publish_loop_returned [of rt env 1 u] by (simp add: upto_1_5)
  with started have s: "sent (snd (publishMessages rt env)) =
     map (\<lambda>n. (JSON_stringify rt (message env n), ctxWithBaggage env n)) [1, 2, 3, 4, 5]"
    by (simp add: sent_publishMessages)
  show ?thesis
    by (simp add: s message_def baggage_of_ctxWithBaggage)
qed

theorem successful_run_publishes_five_witness:
  \<open>fst (publishMessages demo_rt (demo_env all_sent None)) = 0 \<and>
   map fst (sent (snd (publishMessages demo_rt (demo_env all_sent None)))) =
     [''{"id":1,"timestamp":"2024-01-01T00:00:00.000Z","data":"Message 1"}'',
      ''{"id":2,"timestamp":"2024-01-01T00:00:00.000Z","data":"Message 2"}'',
      ''{"id":3,"timestamp":"2024-01-01T00:00:00.000Z","data":"Message 3"}'',
      ''{"id":4,"timestamp":"2024-01-01T00:00:00.000Z","data":"Message 4"}'',
      ''{"id":5,"timestamp":"2024-01-01T00:00:00.000Z","data":"Message 5"}''] \<and>
   map (\<lambda>(payload, ctx).
          (getEntry (entries ctx) ''user.id'', getEntry (entries ctx) ''request.source'',
           getEntry (entries ctx) ''message.number''))
       (sent (snd (publishMessages demo_rt (demo_env all_sent None)))) =
     [(Some ''user-1001'', Some ''api-gateway'', Some ''1''),
      (Some ''user-1002'', Some ''api-gateway'', Some ''2''),
      (Some ''user-1003'', Some ''api-gateway'', Some ''3''),
      (Some ''user-1004'', Some ''api-gateway'', Some ''4''),
      (Some ''user-1005'', Some ''api-gateway'', Some ''5'')]\<close>
  using successful_run_publishes_five [OF demo_run_exit_0, of demo_rt] demo_run_exit_0 [of demo_rt]
  by (simp add: demo_env_sel demo_rt_def str_eval)

text \<open>
  C7. In every publisher run, the messages handed to the queue are the first \<open>k\<close> of
  the messages 1 to 5, and message \<open>n\<close> carries the baggage \<open>user.id\<close> (\<open>"user-"\<close> and
  \<open>1000 + n\<close>), \<open>request.source\<close> (\<open>"api-gateway"\<close>), \<open>message.number\<close> (the text of
  \<open>n\<close>) and a \<open>session.id\<close> made of \<open>"session-"\<close> and the millisecond clock reading
  taken while message \<open>n\<close> is built. The session identifier is computed for each
  message, not once for the run.
\<close>

theorem session_id_is_per_message:
  "\<exists>k. map (\<lambda>(payload, ctx).
              (getEntry (entries ctx) ''user.id'', getEntry (entries ctx) ''request.source'',
               getEntry (entries ctx) ''session.id'', getEntry (entries ctx) ''message.number''))
           (sent (snd (publishMessages rt env))) =
        map (\<lambda>n. (Some (''user-'' @ toString (1000 + n)), Some ''api-gateway'',
                   Some (''session-'' @ toString (env_Date_now env n)), Some (toString n)))
          (take k [1, 2, 3, 4, 5])"
proof (cases "isl (fst (connectWithRetry (env_broker env) (env_RABBITMQ_URL env) 10 2000)) \<or>
         env_createChannel env \<noteq> None \<or> env_assertQueue env \<noteq> None")
  case True
  then have "sent (snd (publishMessages rt env)) = []"
    by (simp add: sent_publishMessages)
  then have "map (\<lambda>(payload, ctx).
              (getEntry (entries ctx) ''user.id'', getEntry (entries ctx) ''request.source'',
               getEntry (entries ctx) ''session.id'', getEntry (entries ctx) ''message.number''))
           (sent (snd (publishMessages rt env))) =
        map (\<lambda>n. (Some (''user-'' @ toString (1000 + n)), Some ''api-gateway'',
                   Some (''session-'' @ toString (env_Date_now env n)), Some (toString n)))
          (take 0 [1, 2, 3, 4, 5])"
    by simp
  then show ?thesis by blast
next
  case False
  obtain k where "sent (snd (publish_loop rt env 1)) =
     map (\<lambda>n. (JSON_stringify rt (message env n), ctxWithBaggage env n)) (take k [1..5])"
    using publish_loop_prefix [of rt env 1] by blast
  with False have "sent (snd (publishMessages rt env)) =
     map (\<lambda>n. (JSON_stringify rt (message env n), ctxWithBaggage env n)) (take k [1, 2, 3, 4, 5])"
    by (simp add: sent_publishMessages upto_1_5)
  then have "map (\<lambda>(payload, ctx).
              (getEntry (entries ctx) ''user.id'', getEntry (entries ctx) ''request.source'',
               getEntry (entries ctx) ''session.id'', getEntry (entries ctx) ''message.number''))
           (sent (snd (publishMessages rt env))) =
        map (\<lambda>n. (Some (''user-'' @ toString (1000 + n)), Some ''api-gateway'',
                   Some (''session-'' @ toString (env_Date_now env n)), Some (toString n)))
          (take k [1, 2, 3, 4, 5])"
    by (simp add: baggage_of_ctxWithBaggage)
  then show ?thesis by blast
qed

text \<open>
  With a clock that advances by the two seconds the publisher waits between messages,
  the five messages of one successful run carry five different session identifiers.
\<close>

theorem session_ids_differ:
  "fst (publishMessages demo_rt (demo_env all_sent None)) = 0 \<and>
   map (\<lambda>(payload, ctx). getEntry (entries ctx) ''session.id'')
     (sent (snd (publishMessages demo_rt (demo_env all_sent None)))) =
     [Some ''session-1704067202000'', Some ''session-1704067204000'',
      Some ''session-1704067206000'', Some ''session-1704067208000'',
      Some ''session-1704067210000'']"
proof -
  have "sent (snd (publishMessages demo_rt (demo_env all_sent None))) =
     map (\<lambda>n. (JSON_stringify demo_rt (message (demo_env all_sent None) n),
                ctxWithBaggage (demo_env all_sent None) n)) [1, 2, 3, 4, 5]"
    by (simp add: sent_publishMessages demo_env_sel demo_connect demo_loop_all_sent upto_1_5)
  then show ?thesis
    by (simp add: demo_run_exit_0 baggage_of_ctxWithBaggage demo_env_sel str_eval)
qed

lemma exits_publishMessages_completed:
  "fst (connectWithRetry (env_broker env) (env_RABBITMQ_URL env) 10 2000) = Inr conn \<Longrightarrow>
   env_createChannel env = None \<Longrightarrow> env_assertQueue env = None \<Longrightarrow>
   \<forall>n. 1 \<le> n \<and> n \<le> 5 \<longrightarrow> env_sendToQueue env n = None \<Longrightarrow>
   env_channel_close env = None \<Longrightarrow> env_connection_close env = None \<Longrightarrow>
   filter is_exit (snd (publishMessages rt env)) = []"
proof -
  assume a: "fst (connectWithRetry (env_broker env) (env_RABBITMQ_URL env) 10 2000) = Inr conn"
    "env_createChannel env = None" "env_assertQueue env = None"
    "\<forall>n. 1 \<le> n \<and> n \<le> 5 \<longrightarrow> env_sendToQueue env n = None"
    "env_channel_close env = None" "env_connection_close env = None"
  have loop: "fst (publish_loop rt env 1) = Inr ()" "filter is_exit (snd (publish_loop rt env 1)) = []"
    using publish_loop_all_sent [OF a(4), of rt] by simp_all
  have c: "filter is_exit (snd (connectWithRetry (env_broker env) (env_RABBITMQ_URL env) 10 2000)) = []"
    unfolding connectWithRetry_def by (rule exits_connect_loop)
  have rest: "\<not> is_exit CreateChannel" "\<not> is_exit (AssertQueue QUEUE_NAME False)"
    "\<not> is_exit (ConsoleLog (LQueueReady QUEUE_NAME))" "\<not> is_exit (ConsoleLog LAllPublished)"
    "\<not> is_exit ChannelClose" "\<not> is_exit ConnectionClose" "\<not> is_exit (ConsoleLog LConnectionClosed)"
    by (simp_all add: is_exit_def)
  show ?thesis
    by (simp add: publishMessages_completed [OF a(1) a(2) a(3) loop(1) a(5) a(6)] c loop(2) rest)
qed

text \<open>
  C8. Once the connection, the channel and the queue are there: if the send of message
  \<open>j\<close> is the first to throw, the run ends with status 1, the sends made are those of
  messages 1 to \<open>j\<close> and no later one, and the trace ends with the two error reports,
  the closing of channel and connection and the exit, so nothing is undone for the
  messages already sent. If all five sends succeed and the channel and the connection
  close without error, the run ends with status 0 and does not call exit.
\<close>

theorem publish_failure_aborts_run:
  "fst (connectWithRetry (env_broker env) (env_RABBITMQ_URL env) 10 2000) = Inr conn \<Longrightarrow>
   env_createChannel env = None \<Longrightarrow> env_assertQueue env = None \<Longrightarrow>
   (1 \<le> j \<and> j \<le> 5 \<and> (\<forall>n. 1 \<le> n \<and> n < j \<longrightarrow> env_sendToQueue env n = None) \<and>
    env_sendToQueue env j = Some err \<longrightarrow>
      fst (publishMessages rt env) = 1 \<and>
      sent (snd (publishMessages rt env)) =
        map (\<lambda>n. (JSON_stringify rt (message env n), ctxWithBaggage env n)) [1..j] \<and>
      (\<exists>pre. snd (publishMessages rt env) =
         pre @ [ConsoleError (LErrorPublishing j err), ConsoleError (LErrorInPublisher err),
                ChannelClose, ConnectionClose, ProcessExit 1])) \<and>
   ((\<forall>n. 1 \<le> n \<and> n \<le> 5 \<longrightarrow> env_sendToQueue env n = None) \<and>
    env_channel_close env = None \<and> env_connection_close env = None \<longrightarrow>
      fst (publishMessages rt env) = 0 \<and>
      sent (snd (publishMessages rt env)) =
        map (\<lambda>n. (JSON_stringify rt (message env n), ctxWithBaggage env n)) [1..5] \<and>
      filter is_exit (snd (publishMessages rt env)) = [])"
proof (intro conjI impI)
  assume c: "fst (connectWithRetry (env_broker env) (env_RABBITMQ_URL env) 10 2000) = Inr conn"
    and ch: "env_createChannel env = None" and q: "env_assertQueue env = None"
  {
    assume f: "1 \<le> j \<and> j \<le> 5 \<and> (\<forall>n. 1 \<le> n \<and> n < j \<longrightarrow> env_sendToQueue env n = None) \<and>
      env_sendToQueue env j = Some err"
    have loop: "fst (publish_loop rt env 1) = Inl err \<and>
      sent (snd (publish_loop rt env 1)) =
        map (\<lambda>n. (JSON_stringify rt (message env n), ctxWithBaggage env n)) [1..j] \<and>
      (\<exists>pre. snd (publish_loop rt env 1) = pre @ [ConsoleError (LErrorPublishing j err)])"
      using f by (intro publish_loop_first_failure) simp_all
    then obtain pre where pre: "snd (publish_loop rt env 1) = pre @ [ConsoleError (LErrorPublishing j err)]"
      by blast
    note run = publishMessages_publish_failed [OF c ch q, of rt err]
    show "fst (publishMessages rt env) = 1"
      using run loop by simp
    show "sent (snd (publishMessages rt env)) =
        map (\<lambda>n. (JSON_stringify rt (message env n), ctxWithBaggage env n)) [1..j]"
      using loop c ch q by (simp add: sent_publishMessages)
    have "snd (publishMessages rt env) =
       (snd (connectWithRetry (env_broker env) (env_RABBITMQ_URL env) 10 2000) @
         [CreateChannel, AssertQueue QUEUE_NAME False, ConsoleLog (LQueueReady QUEUE_NAME)] @ pre) @
        [ConsoleError (LErrorPublishing j err), ConsoleError (LErrorInPublisher err),
         ChannelClose, ConnectionClose, ProcessExit 1]"
      using run loop pre by simp
    then show "\<exists>pre. snd (publishMessages rt env) =
         pre @ [ConsoleError (LErrorPublishing j err), ConsoleError (LErrorInPublisher err),
                ChannelClose, ConnectionClose, ProcessExit 1]"
      by blast
  }
  {
    assume s: "(\<forall>n. 1 \<le> n \<and> n \<le> 5 \<longrightarrow> env_sendToQueue env n = None) \<and>
      env_channel_close env = None \<and> env_connection_close env = None"
    then have all: "\<forall>n. 1 \<le> n \<and> n \<le> 5 \<longrightarrow> env_sendToQueue env n = None"
      and cl: "env_channel_close env = None" "env_connection_close env = None"
      by simp_all
    have loop: "fst (publish_loop rt env 1) = Inr ()"
      "sent (snd (publish_loop rt env 1)) =
        map (\<lambda>n. (JSON_stringify rt (message env n), ctxWithBaggage env n)) [1..5]"
      using publish_loop_all_sent [OF all, of rt] by simp_all
    show "fst (publishMessages rt env) = 0"
      using c ch q loop(1) cl by (simp add: publishMessages_exit_0)
    show "sent (snd (publishMessages rt env)) =
        map (\<lambda>n. (JSON_stringify rt (message env n), ctxWithBaggage env n)) [1..5]"
      using c ch q loop(2) by (simp add: sent_publishMessages)
    show "filter is_exit (snd (publishMessages rt env)) = []"
      by (rule exits_publishMessages_completed [OF c ch q all cl])
  }
qed

theorem publish_failure_aborts_run_witness:
  "fst (publishMessages demo_rt (demo_env (fails_at 3) None)) = 1 \<and>
   map fst (sent (snd (publishMessages demo_rt (demo_env (fails_at 3) None)))) =
     map (\<lambda>n. stringify (message (demo_env (fails_at 3) None) n)) [1, 2, 3] \<and>
   fst (publishMessages demo_rt (demo_env all_sent None)) = 0 \<and>
   map fst (sent (snd (publishMessages demo_rt (demo_env all_sent None)))) =
     map (\<lambda>n. stringify (message (demo_env all_sent None) n)) [1, 2, 3, 4, 5]"
proof -
  have c: "\<And>send. fst (connectWithRetry (env_broker (demo_env send None))
             (env_RABBITMQ_URL (demo_env send None)) 10 2000) =
           Inr (Connection ''amqp://localhost:5672'')"
    by (simp add: demo_env_sel demo_connect)
  have ch: "\<And>send. env_createChannel (demo_env send None) = None"
    and q: "\<And>send. env_assertQueue (demo_env send None) = None"
    by (simp_all add: demo_env_sel)
  have f: "1 \<le> (3::int) \<and> (3::int) \<le> 5 \<and>
      (\<forall>n. 1 \<le> n \<and> n < 3 \<longrightarrow> env_sendToQueue (demo_env (fails_at 3) None) n = None) \<and>
      env_sendToQueue (demo_env (fails_at 3) None) 3 = Some (Error ''Channel closed'')"
    by (simp add: demo_env_sel fails_at_def)
  have s: "(\<forall>n. 1 \<le> n \<and> n \<le> 5 \<longrightarrow> env_sendToQueue (demo_env all_sent None) n = None) \<and>
      env_channel_close (demo_env all_sent None) = None \<and>
      env_connection_close (demo_env all_sent None) = None"
    by (simp add: demo_env_sel all_sent_def)
  have u3: "[1..3] = [1, 2, 3::int]" by (simp add: upto_rec1)
  show ?thesis
    using publish_failure_aborts_run [OF c ch q, of 3 "fails_at 3" "Error ''Channel closed''" demo_rt]
      publish_failure_aborts_run [OF c ch q, of 3 all_sent "Error ''Channel closed''" demo_rt]
      f s u3 upto_1_5
    by (simp add: demo_rt_def)
qed

text \<open>
  All five sends succeed, then closing the channel throws: the run ends with status 1.
\<close>

theorem close_failure_exits_1:
  "map (env_sendToQueue (demo_env all_sent (Some (Error ''Channel closed'')))) [1, 2, 3, 4, 5] =
     [None, None, None, None, None] \<and>
   length (sent (snd (publishMessages demo_rt (demo_env all_sent (Some (Error ''Channel closed'')))))) = 5 \<and>
   fst (publishMessages demo_rt (demo_env all_sent (Some (Error ''Channel closed'')))) = 1"
proof -
  let ?env = "demo_env all_sent (Some (Error ''Channel closed''))"
  have c: "fst (connectWithRetry (env_broker ?env) (env_RABBITMQ_URL ?env) 10 2000) =
           Inr (Connection ''amqp://localhost:5672'')"
    by (simp add: demo_env_sel demo_connect)
  have "fst (publishMessages demo_rt ?env) = 1"
    by (rule publishMessages_close_failed [OF c, of _ "Error ''Channel closed''"])
       (simp_all add: demo_env_sel demo_loop_all_sent)
  moreover have "length (sent (snd (publishMessages demo_rt ?env))) = 5"
    by (simp add: sent_publishMessages demo_env_sel demo_connect demo_loop_all_sent upto_1_5)
  moreover have "map (env_sendToQueue ?env) [1, 2, 3, 4, 5] = [None, None, None, None, None]"
    by (simp add: demo_env_sel all_sent_def)
  ultimately show ?thesis by simp
qed

end
